theory Spec2Isabelle
  imports Complex_Main "HOL-Library.AList" "HOL-Library.Word"
begin

unbundle bit_operations_syntax

section \<open>Data model\<close>

text \<open>
  The interfaces of \<^verbatim>\<open>main.ts\<close> as records. Field names follow the source except where
  two interfaces share a name or the name is reserved: \<^verbatim>\<open>id\<close> is \<open>hid\<close> (highlight)
  and \<open>cardId\<close> (flashcard), \<^verbatim>\<open>text\<close> is \<open>htext\<close>, \<^verbatim>\<open>done\<close> is \<open>doneFlag\<close>,
  \<^verbatim>\<open>x, y, w, h\<close> are \<open>rx, ry, rw, rh\<close>, and the \<^verbatim>\<open>version\<close> and \<^verbatim>\<open>sourcePath\<close>
  fields carry a prefix for their interface. Strings are lists of characters, one per
  UTF-16 code unit below 256.
\<close>

datatype HighlightColor = Yellow | Green | Blue | FlashcardColor

text \<open>
  A JavaScript number as far as the geometry needs it: a finite double, given by its
  value, or a non-finite one (\<^verbatim>\<open>Infinity\<close>, \<^verbatim>\<open>-Infinity\<close> or \<^verbatim>\<open>NaN\<close>), which is what a
  division by zero and an overflow yield.
\<close>

datatype jsnum = Fin real | NonFinite

record HighlightRect =
  rx :: jsnum
  ry :: jsnum
  rw :: jsnum
  rh :: jsnum

record HighlightPage =
  page :: int
  rects :: "HighlightRect list"

record Highlight =
  hid :: string
  color :: HighlightColor
  isFlashcard :: bool
  htext :: string
  createdAt :: string
  pages :: "HighlightPage list"
  flashcardGenerated :: "bool option"

record HighlightFile =
  hfVersion :: int
  hfSourcePath :: string
  highlights :: "Highlight list"

record Flashcard =
  cardId :: string
  cardSourcePath :: string
  highlightIds :: "string list"
  question :: string
  answer :: string
  cardCreatedAt :: string

record FlashcardFile =
  ffVersion :: int
  cards :: "Flashcard list"

text \<open>
  \<^verbatim>\<open>interface CardProgress\<close>. The optional fields are options; \<open>streak\<close> and
  \<open>intervalDays\<close> are JavaScript numbers that only ever hold integers here and are
  modelled as unbounded integers.
\<close>

record CardProgress =
  lastReviewedAt :: "string option"
  nextDueAt :: "string option"
  streak :: int
  intervalDays :: int
  doneFlag :: "bool option"

text \<open>
  \<^verbatim>\<open>Record<string, CardProgress>\<close> is an association list in insertion order: a lookup is
  \<open>map_of\<close>, an assignment \<^verbatim>\<open>m[k] = v\<close> is \<open>AList.update\<close> (in place for a present key,
  appended for a new one), \<^verbatim>\<open>delete m[k]\<close> is \<open>AList.delete\<close>, \<^verbatim>\<open>Object.keys\<close> is
  \<open>map fst\<close>.
\<close>

record ProgressFile =
  pfVersion :: int
  progress :: "(string \<times> CardProgress) list"

definition HIGHLIGHT_VERSION :: int where "HIGHLIGHT_VERSION = 1"
definition FLASHCARD_VERSION :: int where "FLASHCARD_VERSION = 1"
definition PROGRESS_VERSION :: int where "PROGRESS_VERSION = 1"

text \<open>
  A value produced by \<^verbatim>\<open>JSON.parse\<close>. An object lists its members in the order of the
  text, one entry per key.
\<close>

datatype json =
    JNull
  | JBool bool
  | JNum real
  | JStr string
  | JArr "json list"
  | JObj "(string \<times> json) list"

section \<open>Host environment\<close>

text \<open>
  The plugin is TypeScript running inside Obsidian. What the JavaScript runtime provides
  and the source never defines is gathered in one record of host functions, passed to
  every operation that calls them:
  \<^item> \<open>toISOString\<close>: \<^verbatim>\<open>Date.prototype.toISOString\<close> on a point in time given in milliseconds
    since the epoch;
  \<^item> \<open>setDate\<close>: \<open>setDate t k\<close> is the time reached from \<open>t\<close> by
    \<^verbatim>\<open>d.setDate(d.getDate() + k)\<close>, the local calendar moved by \<open>k\<close> days;
  \<^item> \<open>JSON_parse\<close>: \<^verbatim>\<open>JSON.parse\<close>, \<open>None\<close> where it throws a SyntaxError;
  \<^item> \<open>numberToString\<close>: \<^verbatim>\<open>String(n)\<close> for a number \<open>n\<close>;
  \<^item> \<open>roundDouble\<close>: the double that an arithmetic operation returns when its exact
    result is \<open>x\<close>: the double nearest to \<open>x\<close>, or a value that is not finite where
    the operation overflows;
  \<^item> \<open>assignHighlightFile\<close>, \<open>assignFlashcardFile\<close>, \<open>assignProgressFile\<close>:
    \<^verbatim>\<open>Object.assign({}, fallback, parsed)\<close> read at the type \<^verbatim>\<open>T\<close> that \<^verbatim>\<open>readJson<T>\<close> casts
    it to (the source does not validate the parsed value);
  \<^item> \<open>stringifyHighlightFile\<close>, \<open>stringifyFlashcardFile\<close>, \<open>stringifyProgressFile\<close>:
    \<^verbatim>\<open>JSON.stringify(data, null, 2)\<close> at each document type.
\<close>

record host =
  toISOString :: "int \<Rightarrow> string"
  setDate :: "int \<Rightarrow> int \<Rightarrow> int"
  JSON_parse :: "string \<Rightarrow> json option"
  numberToString :: "real \<Rightarrow> string"
  assignHighlightFile :: "HighlightFile \<Rightarrow> json \<Rightarrow> HighlightFile"
  assignFlashcardFile :: "FlashcardFile \<Rightarrow> json \<Rightarrow> FlashcardFile"
  assignProgressFile :: "ProgressFile \<Rightarrow> json \<Rightarrow> ProgressFile"
  stringifyHighlightFile :: "HighlightFile \<Rightarrow> string"
  stringifyFlashcardFile :: "FlashcardFile \<Rightarrow> string"
  stringifyProgressFile :: "ProgressFile \<Rightarrow> string"
  roundDouble :: "real \<Rightarrow> jsnum"

section \<open>Persistence store\<close>

text \<open>
  What the vault adapter holds at one path, as \<^verbatim>\<open>readJson\<close> can tell: no file, something
  that exists but whose \<^verbatim>\<open>adapter.read\<close> rejects, or a file with its text.
\<close>

datatype raw_file = Missing | Unreadable | Content string

datatype js_error = ReadError | SyntaxError | TypeError

text \<open>
  The plugin object: the two settings the store uses, the adapter's files and folders,
  and the in-memory \<^verbatim>\<open>progressCache\<close>.
\<close>

record plugin_state =
  apiKey :: string
  storageFolder :: string
  files :: "string \<Rightarrow> raw_file"
  folders :: "string set"
  progressCache :: "ProgressFile option"

definition adapter_exists :: "plugin_state \<Rightarrow> string \<Rightarrow> bool" where
  "adapter_exists st path = (path \<in> folders st \<or> files st path \<noteq> Missing)"

definition adapter_read :: "plugin_state \<Rightarrow> string \<Rightarrow> js_error + string" where
  "adapter_read st path =
     (case files st path of Content raw \<Rightarrow> Inr raw | Missing \<Rightarrow> Inl ReadError
      | Unreadable \<Rightarrow> Inl ReadError)"

text \<open>\<^verbatim>\<open>ensureStorageFolder(create)\<close>; the returned folder name is unused by every caller.\<close>

definition ensureStorageFolder :: "bool \<Rightarrow> plugin_state \<Rightarrow> plugin_state" where
  "ensureStorageFolder create st =
     (let folder = (if storageFolder st = [] then ''.flashcards'' else storageFolder st)
      in if \<not> adapter_exists st folder \<and> create
         then st\<lparr>folders := insert folder (folders st)\<rparr>
         else st)"

text \<open>
  \<^verbatim>\<open>hashString\<close>. The source keeps \<^verbatim>\<open>hash\<close> in a double; \<^verbatim>\<open>^=\<close> and \<^verbatim>\<open><<\<close> read it
  modulo \<open>2^32\<close> and the six summands stay far below \<open>2^53\<close>, so the loop is
  arithmetic on 32-bit words, read unsigned (\<^verbatim>\<open>>>> 0\<close>) at the end.
\<close>

fun hashLoop :: "32 word \<Rightarrow> string \<Rightarrow> 32 word" where
  "hashLoop hash [] = hash"
| "hashLoop hash (c # cs) =
     (let h1 = hash XOR of_char c
      in hashLoop
           (h1 + (push_bit 1 h1 + push_bit 4 h1 + push_bit 7 h1 + push_bit 8 h1 + push_bit 24 h1))
           cs)"

definition digitChar :: "nat \<Rightarrow> char" where
  "digitChar d = (''0123456789abcdefghijklmnopqrstuvwxyz'' ! d)"

text \<open>\<^verbatim>\<open>Number.prototype.toString(radix)\<close> on a non-negative integer, for radix 10 and 16.\<close>

fun natToString :: "nat \<Rightarrow> nat \<Rightarrow> string" where
  "natToString radix n =
     (if radix < 2 \<or> n < radix then [digitChar n]
      else natToString radix (n div radix) @ [digitChar (n mod radix)])"

declare natToString.simps [simp del]

definition hashString :: "string \<Rightarrow> string" where
  "hashString v = natToString 16 (unat (hashLoop 2166136261 v))"

definition highlightPathFor :: "plugin_state \<Rightarrow> string \<Rightarrow> string" where
  "highlightPathFor st sourcePath =
     storageFolder st @ ''/highlights-'' @ hashString sourcePath @ ''.json''"

definition flashcardPath :: "plugin_state \<Rightarrow> string" where
  "flashcardPath st = storageFolder st @ ''/flashcards.json''"

definition progressPath :: "plugin_state \<Rightarrow> string" where
  "progressPath st = storageFolder st @ ''/progress.json''"

text \<open>
  \<^verbatim>\<open>readJson(path, fallback)\<close>. \<open>readJson_try\<close> is the body of the \<^verbatim>\<open>try\<close> block, where
  \<^verbatim>\<open>adapter.read\<close> and \<^verbatim>\<open>JSON.parse\<close> may throw; \<open>readJson\<close> adds the test for existence
  before it and the \<^verbatim>\<open>catch\<close> after it. The argument \<open>assign\<close> is the host's
  \<^verbatim>\<open>Object.assign\<close> at the document type.
\<close>

definition readJson_try ::
  "host \<Rightarrow> ('d \<Rightarrow> json \<Rightarrow> 'd) \<Rightarrow> plugin_state \<Rightarrow> string \<Rightarrow> 'd \<Rightarrow> js_error + 'd" where
  "readJson_try H assign st path fallback =
     (case adapter_read st path of
        Inl e \<Rightarrow> Inl e
      | Inr raw \<Rightarrow>
          (case JSON_parse H raw of
             None \<Rightarrow> Inl SyntaxError
           | Some v \<Rightarrow> Inr (assign fallback v)))"

definition readJson ::
  "host \<Rightarrow> ('d \<Rightarrow> json \<Rightarrow> 'd) \<Rightarrow> plugin_state \<Rightarrow> string \<Rightarrow> 'd \<Rightarrow> 'd" where
  "readJson H assign st path fallback =
     (if \<not> adapter_exists st path then fallback
      else case readJson_try H assign st path fallback of
             Inl e \<Rightarrow> fallback
           | Inr d \<Rightarrow> d)"

text \<open>\<^verbatim>\<open>writeJson(path, data)\<close>: the file at \<open>path\<close> is replaced whole.\<close>

definition writeJson :: "('d \<Rightarrow> string) \<Rightarrow> string \<Rightarrow> 'd \<Rightarrow> plugin_state \<Rightarrow> plugin_state" where
  "writeJson stringify path data st = st\<lparr>files := (files st)(path := Content (stringify data))\<rparr>"

section \<open>Progress scheduler\<close>

definition defaultProgress :: CardProgress where
  "defaultProgress =
     \<lparr>lastReviewedAt = None, nextDueAt = None, streak = 0, intervalDays = 0, doneFlag = None\<rparr>"

text \<open>
  \<^verbatim>\<open>buildNextProgress(previous, isGood)\<close>, with the clock reading \<open>now\<close> of
  \<^verbatim>\<open>new Date()\<close> as an argument.
\<close>

definition buildNextProgress :: "host \<Rightarrow> int \<Rightarrow> CardProgress option \<Rightarrow> bool \<Rightarrow> CardProgress" where
  "buildNextProgress H now previous isGood =
     (let current0 = (case previous of Some p \<Rightarrow> p | None \<Rightarrow> defaultProgress);
          current1 =
            (if isGood then
               (let c1 = current0\<lparr>streak := streak current0 + 1\<rparr>;
                    c2 = c1\<lparr>intervalDays := max 1 (intervalDays c1 + streak c1)\<rparr>
                in c2\<lparr>doneFlag := Some True\<rparr>)
             else current0\<lparr>streak := 0, intervalDays := 0, doneFlag := Some False\<rparr>);
          nextDue = setDate H now (if isGood then intervalDays current1 else 0)
      in current1\<lparr>lastReviewedAt := Some (toISOString H now),
                  nextDueAt := Some (toISOString H nextDue)\<rparr>)"

text \<open>
  A history of reviews of one card: each entry is the grade and the clock reading of that
  review. \<open>applyGrades\<close> feeds them through the scheduler one after the other, as
  repeated calls of \<^verbatim>\<open>updateProgressOptimistic\<close> for one card id do.
\<close>

fun applyGrades :: "host \<Rightarrow> CardProgress \<Rightarrow> (bool \<times> int) list \<Rightarrow> CardProgress" where
  "applyGrades H p [] = p"
| "applyGrades H p ((isGood, now) # gs) = applyGrades H (buildNextProgress H now (Some p) isGood) gs"

section \<open>Store operations\<close>

text \<open>
  \<^verbatim>\<open>loadHighlights\<close> and \<^verbatim>\<open>loadAllCards\<close>. They change nothing
  (\<^verbatim>\<open>ensureStorageFolder(false)\<close> creates no folder), so only the value read is returned.
  The \<^verbatim>\<open>|| []\<close> of the source only acts on a document without the list, which the
  document types here do not have.
\<close>

definition loadHighlights :: "host \<Rightarrow> string \<Rightarrow> plugin_state \<Rightarrow> Highlight list" where
  "loadHighlights H sourcePath st =
     (let st1 = ensureStorageFolder False st;
          path = highlightPathFor st1 sourcePath;
          data = readJson H (assignHighlightFile H) st1 path
                   \<lparr>hfVersion = HIGHLIGHT_VERSION, hfSourcePath = sourcePath, highlights = []\<rparr>
      in highlights data)"

definition loadAllCards :: "host \<Rightarrow> plugin_state \<Rightarrow> Flashcard list" where
  "loadAllCards H st =
     (let st1 = ensureStorageFolder False st;
          path = flashcardPath st1;
          data = readJson H (assignFlashcardFile H) st1 path
                   \<lparr>ffVersion = FLASHCARD_VERSION, cards = []\<rparr>
      in cards data)"

text \<open>
  The expression \<^verbatim>\<open>this.progressCache ?? (await this.readJson<ProgressFile>(path, ...))\<close>
  shared by \<^verbatim>\<open>updateProgressOptimistic\<close>, \<^verbatim>\<open>removeProgress\<close> and \<^verbatim>\<open>pruneProgress\<close>.
\<close>

definition progressData :: "host \<Rightarrow> plugin_state \<Rightarrow> ProgressFile" where
  "progressData H st =
     (case progressCache st of
        Some data \<Rightarrow> data
      | None \<Rightarrow>
          readJson H (assignProgressFile H) st (progressPath st)
            \<lparr>pfVersion = PROGRESS_VERSION, progress = []\<rparr>)"

text \<open>
  \<^verbatim>\<open>updateProgressOptimistic(cardId, isGood)\<close>. The write is started and not awaited; the
  model performs it at once.
\<close>

definition updateProgressOptimistic ::
  "host \<Rightarrow> int \<Rightarrow> string \<Rightarrow> bool \<Rightarrow> plugin_state \<Rightarrow> CardProgress \<times> plugin_state" where
  "updateProgressOptimistic H now cid isGood st =
     (let st1 = ensureStorageFolder True st;
          path = progressPath st1;
          data = progressData H st1;
          current = buildNextProgress H now (map_of (progress data) cid) isGood;
          data1 = data\<lparr>progress := AList.update cid current (progress data)\<rparr>;
          st2 = st1\<lparr>progressCache := Some data1\<rparr>;
          st3 = writeJson (stringifyProgressFile H) path data1 st2
      in (current, st3))"

definition loadProgress ::
  "host \<Rightarrow> plugin_state \<Rightarrow> (string \<times> CardProgress) list \<times> plugin_state" where
  "loadProgress H st =
     (let st1 = ensureStorageFolder False st;
          path = progressPath st1;
          st2 = (case progressCache st1 of
                   None \<Rightarrow>
                     st1\<lparr>progressCache :=
                          Some (readJson H (assignProgressFile H) st1 path
                                  \<lparr>pfVersion = PROGRESS_VERSION, progress = []\<rparr>)\<rparr>
                 | Some data \<Rightarrow> st1)
      in (case progressCache st2 of Some data \<Rightarrow> progress data | None \<Rightarrow> [], st2))"

definition resetProgress :: "host \<Rightarrow> plugin_state \<Rightarrow> plugin_state" where
  "resetProgress H st =
     (let st1 = ensureStorageFolder True st;
          path = progressPath st1;
          data = \<lparr>pfVersion = PROGRESS_VERSION, progress = []\<rparr>;
          st2 = writeJson (stringifyProgressFile H) path data st1
      in st2\<lparr>progressCache := Some data\<rparr>)"

definition removeProgress :: "host \<Rightarrow> string \<Rightarrow> plugin_state \<Rightarrow> plugin_state" where
  "removeProgress H cid st =
     (let st1 = ensureStorageFolder True st;
          path = progressPath st1;
          data = progressData H st1;
          data1 = data\<lparr>progress := AList.delete cid (progress data)\<rparr>;
          st2 = writeJson (stringifyProgressFile H) path data1 st1
      in st2\<lparr>progressCache := Some data1\<rparr>)"

text \<open>
  \<^verbatim>\<open>pruneProgress(cards)\<close>: the loop runs over the keys the map had before it started and
  deletes each one that is no card's id.
\<close>

definition pruneProgress :: "host \<Rightarrow> Flashcard list \<Rightarrow> plugin_state \<Rightarrow> plugin_state" where
  "pruneProgress H cs st =
     (let ids = set (map cardId cs);
          path = progressPath st;
          data = progressData H st;
          data1 = data\<lparr>progress :=
                    foldl (\<lambda>m k. if k \<notin> ids then AList.delete k m else m)
                      (progress data) (map fst (progress data))\<rparr>;
          st1 = writeJson (stringifyProgressFile H) path data1 st
      in st1\<lparr>progressCache := Some data1\<rparr>)"

definition replaceAllCards :: "host \<Rightarrow> Flashcard list \<Rightarrow> plugin_state \<Rightarrow> plugin_state" where
  "replaceAllCards H cs st =
     (let st1 = ensureStorageFolder True st;
          path = flashcardPath st1;
          data = \<lparr>ffVersion = FLASHCARD_VERSION, cards = cs\<rparr>;
          st2 = writeJson (stringifyFlashcardFile H) path data st1
      in pruneProgress H cs st2)"

definition addCards :: "host \<Rightarrow> Flashcard list \<Rightarrow> plugin_state \<Rightarrow> plugin_state" where
  "addCards H newCards st =
     (let st1 = ensureStorageFolder True st;
          path = flashcardPath st1;
          data = readJson H (assignFlashcardFile H) st1 path
                   \<lparr>ffVersion = FLASHCARD_VERSION, cards = []\<rparr>;
          data1 = data\<lparr>cards := cards data @ newCards\<rparr>
      in writeJson (stringifyFlashcardFile H) path data1 st1)"

section \<open>Review session\<close>

text \<open>
  The fields of \<^verbatim>\<open>FlashcardView\<close>. \<open>viewProgress\<close> holds the map that
  \<^verbatim>\<open>loadProgress\<close> returned at the last assignment to \<^verbatim>\<open>this.progress\<close>.
\<close>

record FlashcardView =
  viewCards :: "Flashcard list"
  viewIndex :: nat
  showingAnswer :: bool
  viewProgress :: "(string \<times> CardProgress) list"

text \<open>\<^verbatim>\<open>!this.progress[card.id]?.done\<close>: true unless the entry exists with \<^verbatim>\<open>done\<close> true.\<close>

definition notDone :: "(string \<times> CardProgress) list \<Rightarrow> Flashcard \<Rightarrow> bool" where
  "notDone prog crd =
     (case map_of prog (cardId crd) of
        None \<Rightarrow> True
      | Some p \<Rightarrow> (case doneFlag p of None \<Rightarrow> True | Some b \<Rightarrow> \<not> b))"

definition remainingCards :: "FlashcardView \<Rightarrow> Flashcard list" where
  "remainingCards v = filter (notDone (viewProgress v)) (viewCards v)"

definition currentCard :: "FlashcardView \<Rightarrow> Flashcard option" where
  "currentCard v =
     (let remaining = remainingCards v
      in if length remaining = 0 then None
         else Some (remaining ! (viewIndex v mod length remaining)))"

definition reload :: "host \<Rightarrow> plugin_state \<Rightarrow> FlashcardView \<times> plugin_state" where
  "reload H st =
     (let cs = loadAllCards H st;
          (prog, st1) = loadProgress H st
      in (\<lparr>viewCards = cs, viewIndex = 0, showingAnswer = False, viewProgress = prog\<rparr>, st1))"

definition handleGrade ::
  "host \<Rightarrow> int \<Rightarrow> bool \<Rightarrow> FlashcardView \<times> plugin_state \<Rightarrow> FlashcardView \<times> plugin_state" where
  "handleGrade H now isGood vs =
     (case vs of (v, st) \<Rightarrow>
        (case currentCard v of
           None \<Rightarrow> (v, st)
         | Some crd \<Rightarrow>
             (let (current, st1) = updateProgressOptimistic H now (cardId crd) isGood st;
                  (prog, st2) = loadProgress H st1;
                  v1 = v\<lparr>viewProgress := prog\<rparr>;
                  remaining = remainingCards v1;
                  v2 = (if length remaining > 0
                        then v1\<lparr>viewIndex := (viewIndex v1 + 1) mod length remaining\<rparr>
                        else v1\<lparr>viewIndex := 0\<rparr>)
              in (v2\<lparr>showingAnswer := False\<rparr>, st2))))"

text \<open>
  What \<^verbatim>\<open>render\<close> puts on the screen: the notice for a session without cards, the
  notice with the restart button for a session whose cards are all done, or the text of
  the current card with the two counts of the \<^verbatim>\<open>Remaining n of m\<close> line.
\<close>

datatype screen =
    NoFlashcardsYet
  | FinishedAll
  | ShowCard string nat nat

definition render :: "FlashcardView \<Rightarrow> screen" where
  "render v =
     (case currentCard v of
        None \<Rightarrow> (if length (viewCards v) = 0 then NoFlashcardsYet else FinishedAll)
      | Some crd \<Rightarrow>
          ShowCard (if showingAnswer v then answer crd else question crd)
            (length (remainingCards v)) (length (viewCards v)))"

section \<open>Flashcard manager\<close>

text \<open>
  The click handler of a row's Delete button in \<^verbatim>\<open>FlashcardManageView.render\<close>; \<open>i\<close> and
  \<open>crd\<close> are the row's position and card, captured when the row was drawn.
  \<^verbatim>\<open>this.cards.splice(index, 1)\<close> removes the element at that position.
\<close>

definition splice1 :: "nat \<Rightarrow> 'a list \<Rightarrow> 'a list" where
  "splice1 i xs = take i xs @ drop (Suc i) xs"

definition deleteClick ::
  "host \<Rightarrow> nat \<Rightarrow> Flashcard \<Rightarrow> Flashcard list \<times> plugin_state \<Rightarrow> Flashcard list \<times> plugin_state" where
  "deleteClick H i crd ms =
     (case ms of (cs, st) \<Rightarrow>
        (let cs1 = splice1 i cs;
             st1 = replaceAllCards H cs1 st;
             st2 = removeProgress H (cardId crd) st1
         in (cs1, st2)))"

section \<open>Geometry normalizer\<close>

text \<open>
  A \<^verbatim>\<open>DOMRect\<close> in client coordinates, over exact reals. The DOM derives the four edges
  from the origin and the size; for the rectangles layout hands out the size is not
  negative and \<open>rectLeft\<close>, \<open>rectTop\<close> are the origin.
\<close>

record DOMRect =
  rectX :: real
  rectY :: real
  rectWidth :: real
  rectHeight :: real

definition rectLeft :: "DOMRect \<Rightarrow> real" where
  "rectLeft r = min (rectX r) (rectX r + rectWidth r)"

definition rectRight :: "DOMRect \<Rightarrow> real" where
  "rectRight r = max (rectX r) (rectX r + rectWidth r)"

definition rectTop :: "DOMRect \<Rightarrow> real" where
  "rectTop r = min (rectY r) (rectY r + rectHeight r)"

definition rectBottom :: "DOMRect \<Rightarrow> real" where
  "rectBottom r = max (rectY r) (rectY r + rectHeight r)"

text \<open>
  A mounted \<^verbatim>\<open>.page\<close> element: the integer that \<^verbatim>\<open>parseInt\<close> reads from its
  \<^verbatim>\<open>data-page-number\<close> attribute (\<open>None\<close> when the attribute is absent, where the source
  takes 1), and its bounding client rectangle.
\<close>

record PageEl =
  dataPageNumber :: "int option"
  box :: DOMRect

definition pageNumberOf :: "PageEl \<Rightarrow> int" where
  "pageNumberOf pageEl = (case dataPageNumber pageEl of None \<Rightarrow> 1 | Some n \<Rightarrow> n) - 1"

text \<open>
  The current \<^verbatim>\<open>Selection\<close>: \<open>clientRects\<close> are the rectangles of its first range,
  \<open>selText\<close> is \<^verbatim>\<open>selection.toString()\<close>.
\<close>

record Selection =
  isCollapsed :: bool
  rangeCount :: nat
  clientRects :: "DOMRect list"
  selText :: string

text \<open>
  Subtraction and division of doubles: the exact result as the host rounds it. A
  division by zero is not finite, and neither is the quotient of a dividend that is
  not finite.
\<close>

definition jssub :: "host \<Rightarrow> real \<Rightarrow> real \<Rightarrow> jsnum" where
  "jssub H a b = roundDouble H (a - b)"

definition jsdiv :: "host \<Rightarrow> jsnum \<Rightarrow> real \<Rightarrow> jsnum" where
  "jsdiv H a b =
     (case a of
        NonFinite \<Rightarrow> NonFinite
      | Fin x \<Rightarrow> if b = 0 then NonFinite else roundDouble H (x / b))"

definition centerX :: "DOMRect \<Rightarrow> real" where
  "centerX r = rectLeft r + rectWidth r / 2"

definition centerY :: "DOMRect \<Rightarrow> real" where
  "centerY r = rectTop r + rectHeight r / 2"

text \<open>The predicate of \<^verbatim>\<open>pages.find\<close>: the centre lies within the page box, edges included.\<close>

definition containsCenter :: "DOMRect \<Rightarrow> DOMRect \<Rightarrow> bool" where
  "containsCenter r b =
     (centerX r \<ge> rectLeft b \<and> centerX r \<le> rectRight b
      \<and> centerY r \<ge> rectTop b \<and> centerY r \<le> rectBottom b)"

definition normalizeRect :: "host \<Rightarrow> DOMRect \<Rightarrow> DOMRect \<Rightarrow> HighlightRect" where
  "normalizeRect H b r =
     \<lparr>rx = jsdiv H (jssub H (rectLeft r) (rectLeft b)) (rectWidth b),
      ry = jsdiv H (jssub H (rectTop r) (rectTop b)) (rectHeight b),
      rw = jsdiv H (Fin (rectWidth r)) (rectWidth b),
      rh = jsdiv H (Fin (rectHeight r)) (rectHeight b)\<rparr>"

text \<open>
  \<^verbatim>\<open>pageMap\<close> is a \<^verbatim>\<open>Map\<close> from page number to rectangles, in insertion order.
  \<open>pushRect\<close> is the pair of statements that creates the page's entry when it is new and
  appends the rectangle; \<open>placeRect\<close> is the body of \<^verbatim>\<open>rects.forEach\<close>.
\<close>

definition pushRect ::
  "int \<Rightarrow> HighlightRect \<Rightarrow> (int \<times> HighlightRect list) list \<Rightarrow> (int \<times> HighlightRect list) list" where
  "pushRect n nrm pageMap =
     (case map_of pageMap n of
        None \<Rightarrow> pageMap @ [(n, [nrm])]
      | Some rs \<Rightarrow> AList.update n (rs @ [nrm]) pageMap)"

definition placeRect ::
  "host \<Rightarrow> PageEl list \<Rightarrow> (int \<times> HighlightRect list) list \<Rightarrow> DOMRect
    \<Rightarrow> (int \<times> HighlightRect list) list" where
  "placeRect H pageEls pageMap r =
     (case find (\<lambda>pageEl. containsCenter r (box pageEl)) pageEls of
        None \<Rightarrow> pageMap
      | Some pageEl \<Rightarrow> pushRect (pageNumberOf pageEl) (normalizeRect H (box pageEl) r) pageMap)"

text \<open>
  \<^verbatim>\<open>buildHighlightFromSelection(selection, pdfViewer, color)\<close>; \<open>pageEls\<close> are the
  \<^verbatim>\<open>.page\<close> elements of the viewer, \<open>newId\<close> and \<open>nowIso\<close> the fresh id and the time stamp
  that the source takes from the clock and the random generator.
\<close>

definition buildHighlightFromSelection ::
  "host \<Rightarrow> string \<Rightarrow> string \<Rightarrow> Selection \<Rightarrow> PageEl list \<Rightarrow> HighlightColor
    \<Rightarrow> Highlight option" where
  "buildHighlightFromSelection H newId nowIso selection pageEls col =
     (if rangeCount selection = 0 then None
      else
        (let rs = filter (\<lambda>r. rectWidth r > 1 \<and> rectHeight r > 1) (clientRects selection)
         in if length rs = 0 then None
            else if length pageEls = 0 then None
            else
              (let pageMap = foldl (placeRect H pageEls) [] rs
               in if length pageMap = 0 then None
                  else Some
                    \<lparr>hid = newId, color = col, isFlashcard = (col = FlashcardColor),
                     htext = selText selection, createdAt = nowIso,
                     pages = map (\<lambda>(n, rectsForPage). \<lparr>page = n, rects = rectsForPage\<rparr>) pageMap,
                     flashcardGenerated = None\<rparr>)))"

definition saveHighlight :: "host \<Rightarrow> string \<Rightarrow> Highlight \<Rightarrow> plugin_state \<Rightarrow> plugin_state" where
  "saveHighlight H sourcePath highlight st =
     (let st1 = ensureStorageFolder True st;
          path = highlightPathFor st1 sourcePath;
          existing = readJson H (assignHighlightFile H) st1 path
                       \<lparr>hfVersion = HIGHLIGHT_VERSION, hfSourcePath = sourcePath, highlights = []\<rparr>;
          existing1 = existing\<lparr>hfSourcePath := sourcePath\<rparr>;
          existing2 = existing1\<lparr>highlights := highlights existing1 @ [highlight]\<rparr>
      in writeJson (stringifyHighlightFile H) path existing2 st1)"

text \<open>
  The click handler of a toolbar button. Its inputs are what the handler asks the
  window and the leaf for: the selection (if any), the page elements of the PDF viewer
  (if a viewer is found) and the path of the PDF file (if any). It returns the notice
  shown, if any, and the plugin state.
\<close>

definition captureClick ::
  "host \<Rightarrow> string \<Rightarrow> string \<Rightarrow> HighlightColor \<Rightarrow> Selection option \<Rightarrow> PageEl list option
    \<Rightarrow> string option \<Rightarrow> plugin_state \<Rightarrow> string option \<times> plugin_state" where
  "captureClick H newId nowIso col sel pdfViewer file st =
     (case sel of
        None \<Rightarrow> (Some ''Select text in the PDF first.'', st)
      | Some selection \<Rightarrow>
          if isCollapsed selection then (Some ''Select text in the PDF first.'', st)
          else
            (case pdfViewer of
               None \<Rightarrow> (Some ''PDF viewer not found.'', st)
             | Some pageEls \<Rightarrow>
                 (case buildHighlightFromSelection H newId nowIso selection pageEls col of
                    None \<Rightarrow> (Some ''Could not capture selection.'', st)
                  | Some highlight \<Rightarrow>
                      (case file of
                         None \<Rightarrow> (Some ''No PDF file associated with this view.'', st)
                       | Some filePath \<Rightarrow> (None, saveHighlight H filePath highlight st)))))"






section \<open>Generation output\<close>

text \<open>\<^verbatim>\<open>Array.prototype.join\<close> on strings.\<close>

fun joinWith :: "string \<Rightarrow> string list \<Rightarrow> string" where
  "joinWith sep [] = []"
| "joinWith sep [s] = s"
| "joinWith sep (s # t # ss) = s @ sep @ joinWith sep (t # ss)"

text \<open>
  JavaScript truthiness of a parsed value: \<^verbatim>\<open>null\<close>, \<^verbatim>\<open>false\<close>, \<open>0\<close> and the empty
  string are falsy, every array and object is truthy.
\<close>

fun truthy :: "json \<Rightarrow> bool" where
  "truthy JNull = False"
| "truthy (JBool b) = b"
| "truthy (JNum n) = (n \<noteq> 0)"
| "truthy (JStr s) = (s \<noteq> [])"
| "truthy (JArr xs) = True"
| "truthy (JObj kvs) = True"

text \<open>
  \<^verbatim>\<open>item?.key\<close> for a key that no prototype defines: the member of an object, and
  \<^verbatim>\<open>undefined\<close> (\<open>None\<close>) on every other value and on an object without the member.
\<close>

fun optionalProp :: "json \<Rightarrow> string \<Rightarrow> json option" where
  "optionalProp (JObj kvs) k = map_of kvs k"
| "optionalProp v k = None"

text \<open>The filter predicate \<^verbatim>\<open>item?.question && item?.answer\<close>, read as a condition.\<close>

definition keepItem :: "json \<Rightarrow> bool" where
  "keepItem item =
     ((case optionalProp item ''question'' of None \<Rightarrow> False | Some q \<Rightarrow> truthy q)
      \<and> (case optionalProp item ''answer'' of None \<Rightarrow> False | Some a \<Rightarrow> truthy a))"

text \<open>
  \<^verbatim>\<open>String(v)\<close> on a parsed value, \<open>None\<close> where it throws a TypeError. An array is
  joined with commas, \<^verbatim>\<open>null\<close> elements giving the empty string. An object gives
  \<^verbatim>\<open>[object Object]\<close> through the inherited \<^verbatim>\<open>toString\<close>; an object with a member of its
  own called \<^verbatim>\<open>toString\<close> (never a function, in parsed JSON) has no primitive value and
  the conversion throws.
\<close>

fun jsString :: "host \<Rightarrow> json \<Rightarrow> string option"
  and elementStrings :: "host \<Rightarrow> json list \<Rightarrow> string list option" where
  "jsString H JNull = Some ''null''"
| "jsString H (JBool b) = Some (if b then ''true'' else ''false'')"
| "jsString H (JNum n) = Some (numberToString H n)"
| "jsString H (JStr s) = Some s"
| "jsString H (JArr xs) = map_option (joinWith '','') (elementStrings H xs)"
| "jsString H (JObj kvs) =
     (if ''toString'' \<in> set (map fst kvs) then None else Some ''[object Object]'')"
| "elementStrings H [] = Some []"
| "elementStrings H (v # vs) =
     (case (if v = JNull then Some [] else jsString H v) of
        None \<Rightarrow> None
      | Some s \<Rightarrow> (case elementStrings H vs of None \<Rightarrow> None | Some ss \<Rightarrow> Some (s # ss)))"

record CardDraft =
  draftQuestion :: string
  draftAnswer :: string

text \<open>
  \<^verbatim>\<open>String(item.key)\<close> for an item that passed the filter, and the function given to
  \<^verbatim>\<open>map\<close>. A member that is absent reads as \<^verbatim>\<open>undefined\<close>.
\<close>

definition propString :: "host \<Rightarrow> json \<Rightarrow> string \<Rightarrow> string option" where
  "propString H item k =
     (case optionalProp item k of None \<Rightarrow> Some ''undefined'' | Some v \<Rightarrow> jsString H v)"

definition draftOf :: "host \<Rightarrow> json \<Rightarrow> CardDraft option" where
  "draftOf H item =
     (case item of
        JNull \<Rightarrow> None
      | _ \<Rightarrow>
        (case propString H item ''question'' of
           None \<Rightarrow> None
         | Some q \<Rightarrow>
             (case propString H item ''answer'' of
                None \<Rightarrow> None
              | Some a \<Rightarrow> Some \<lparr>draftQuestion = q, draftAnswer = a\<rparr>)))"

text \<open>
  \<^verbatim>\<open>parseFlashcards(raw)\<close>: \<open>parseFlashcards_try\<close> is the body of the \<^verbatim>\<open>try\<close> block, whose
  \<^verbatim>\<open>JSON.parse\<close> and \<^verbatim>\<open>String\<close> calls may throw; \<open>parseFlashcards\<close> adds the \<^verbatim>\<open>catch\<close>.
\<close>

definition parseFlashcards_try :: "host \<Rightarrow> string \<Rightarrow> js_error + CardDraft list" where
  "parseFlashcards_try H raw =
     (case JSON_parse H raw of
        None \<Rightarrow> Inl SyntaxError
      | Some parsed \<Rightarrow>
          (case parsed of
             JArr items \<Rightarrow>
               (case those (map (draftOf H) (filter keepItem items)) of
                  None \<Rightarrow> Inl TypeError
                | Some ds \<Rightarrow> Inr ds)
           | _ \<Rightarrow> Inr []))"

definition parseFlashcards :: "host \<Rightarrow> string \<Rightarrow> CardDraft list" where
  "parseFlashcards H raw =
     (case parseFlashcards_try H raw of Inl e \<Rightarrow> [] | Inr ds \<Rightarrow> ds)"

section \<open>Annotation exporter\<close>

text \<open>
  White space as \<^verbatim>\<open>\s\<close>, \<^verbatim>\<open>trim\<close> and \<^verbatim>\<open>trimEnd\<close> see it, among the code units below
  256: tab, line feed, vertical tab, form feed, carriage return, space and the
  no-break space.
\<close>

definition isSpace :: "char \<Rightarrow> bool" where
  "isSpace c = (of_char c \<in> {9, 10, 11, 12, 13, 32, 160 :: nat})"

text \<open>\<^verbatim>\<open>s.replace(/\s+/g, " ")\<close>: every maximal run of white space becomes one space.\<close>

fun collapseSpaces :: "string \<Rightarrow> string" where
  "collapseSpaces [] = []"
| "collapseSpaces [c] = [if isSpace c then CHR '' '' else c]"
| "collapseSpaces (c # d # cs) =
     (if isSpace c
      then (if isSpace d then collapseSpaces (d # cs) else CHR '' '' # collapseSpaces (d # cs))
      else c # collapseSpaces (d # cs))"

definition trimEnd :: "string \<Rightarrow> string" where
  "trimEnd s = rev (dropWhile isSpace (rev s))"

definition trim :: "string \<Rightarrow> string" where
  "trim s = trimEnd (dropWhile isSpace s)"

definition newline :: string where
  "newline = [char_of (10 :: nat)]"

definition colorName :: "HighlightColor \<Rightarrow> string" where
  "colorName c =
     (case c of Yellow \<Rightarrow> ''yellow'' | Green \<Rightarrow> ''green'' | Blue \<Rightarrow> ''blue''
      | FlashcardColor \<Rightarrow> ''flashcard'')"

text \<open>\<^verbatim>\<open>toUpperCase\<close> on one character; the source applies it to the first letter of a colour name.\<close>

definition upperAscii :: "char \<Rightarrow> char" where
  "upperAscii c =
     (case map_of (zip ''abcdefghijklmnopqrstuvwxyz'' ''ABCDEFGHIJKLMNOPQRSTUVWXYZ'') c of
        Some u \<Rightarrow> u
      | None \<Rightarrow> c)"

definition titleForColor :: "HighlightColor \<Rightarrow> string" where
  "titleForColor c =
     (if c = FlashcardColor then ''Flashcard''
      else (case colorName c of [] \<Rightarrow> [] | ch # rest \<Rightarrow> upperAscii ch # rest))"

text \<open>\<^verbatim>\<open>String(n)\<close> for an integer \<open>n\<close>, as a template literal and \<^verbatim>\<open>join\<close> print a page number.\<close>

definition intToString :: "int \<Rightarrow> string" where
  "intToString n = (if n < 0 then ''-'' @ natToString 10 (nat (- n)) else natToString 10 (nat n))"

text \<open>
  \<^verbatim>\<open>Array.from(new Set(xs))\<close>: the elements of \<open>xs\<close> in the order of their first
  occurrence.
\<close>

definition setOrder :: "'a list \<Rightarrow> 'a list" where
  "setOrder xs = foldl (\<lambda>seen v. if v \<in> set seen then seen else seen @ [v]) [] xs"

text \<open>
  The page list of one highlight: \<^verbatim>\<open>p.page + 1\<close> for every page entry, without
  repetitions, sorted by \<^verbatim>\<open>(a, b) => a - b\<close>.
\<close>

definition pageNumbers :: "Highlight \<Rightarrow> int list" where
  "pageNumbers h = sort (setOrder (map (\<lambda>p. page p + 1) (pages h)))"

definition bulletLine :: "Highlight \<Rightarrow> string" where
  "bulletLine h =
     (let txt = trim (collapseSpaces (htext h));
          pgs = pageNumbers h;
          pageInfo = (if length pgs \<noteq> 0
                      then '' (pages '' @ joinWith '', '' (map intToString pgs) @ '')''
                      else [])
      in ''- '' @ txt @ pageInfo)"

text \<open>The \<^verbatim>\<open>groups\<close> map after \<^verbatim>\<open>highlights.forEach\<close>, and the body of \<^verbatim>\<open>order.forEach\<close>.\<close>

definition groupStep ::
  "(HighlightColor \<times> Highlight list) list \<Rightarrow> Highlight \<Rightarrow> (HighlightColor \<times> Highlight list) list" where
  "groupStep groups h =
     (let list = (case map_of groups (color h) of None \<Rightarrow> [] | Some l \<Rightarrow> l)
      in AList.update (color h) (list @ [h]) groups)"

definition emitGroup ::
  "(HighlightColor \<times> Highlight list) list \<Rightarrow> string list \<Rightarrow> HighlightColor \<Rightarrow> string list" where
  "emitGroup groups lines c =
     (case map_of groups c of
        None \<Rightarrow> lines
      | Some list \<Rightarrow>
          if length list = 0 then lines
          else
            (let lines1 = lines @ [''## '' @ titleForColor c];
                 lines2 = foldl (\<lambda>ls h. ls @ [bulletLine h]) lines1 list
             in lines2 @ [[]]))"

definition annotationLines :: "Highlight list \<Rightarrow> string list" where
  "annotationLines hs =
     (let groups = foldl groupStep [] hs
      in foldl (emitGroup groups) [] [FlashcardColor, Yellow, Green, Blue])"

text \<open>
  \<^verbatim>\<open>buildAnnotationMarkdown(file, highlights)\<close>; \<open>file\<close> stands for the \<^verbatim>\<open>TFile\<close>, which the
  body never reads.
\<close>

definition buildAnnotationMarkdown :: "string \<Rightarrow> Highlight list \<Rightarrow> string" where
  "buildAnnotationMarkdown file hs =
     (if length hs = 0 then joinWith newline [''_No annotations found._'']
      else trimEnd (joinWith newline (annotationLines hs)) @ newline)"

text \<open>
  The export as the specification words it, written without the helper functions of
  the source. The words of a text are its maximal runs of characters that are not white
  space; the collapsed text is the words with one space between neighbours.
\<close>

fun specWords :: "string \<Rightarrow> string list" where
  "specWords [] = []"
| "specWords [c] = (if isSpace c then [] else [[c]])"
| "specWords (c # d # cs) =
     (if isSpace c then specWords (d # cs)
      else if isSpace d then [c] # specWords (d # cs)
      else (case specWords (d # cs) of [] \<Rightarrow> [[c]] | w # ws \<Rightarrow> (c # w) # ws))"

definition specJoin :: "string \<Rightarrow> string list \<Rightarrow> string" where
  "specJoin sep ws = (case ws of [] \<Rightarrow> [] | w # rest \<Rightarrow> w @ concat (map (\<lambda>v. sep @ v) rest))"

definition specText :: "string \<Rightarrow> string" where
  "specText t = specJoin '' '' (specWords t)"

text \<open>
  A page number is printed as its decimal numeral: digits only, no leading zero, a
  minus sign in front of a negative number, and read back it is the number.
\<close>

definition isDigit :: "char \<Rightarrow> bool" where
  "isDigit c = (c \<in> set ''0123456789'')"

definition digitValue :: "char \<Rightarrow> nat" where
  "digitValue c = of_char c - 48"

definition decimalValue :: "string \<Rightarrow> nat" where
  "decimalValue ds = foldl (\<lambda>a c. a * 10 + digitValue c) 0 ds"

definition isDecimal :: "string \<Rightarrow> bool" where
  "isDecimal ds = (ds \<noteq> [] \<and> list_all isDigit ds \<and> (ds = ''0'' \<or> hd ds \<noteq> CHR ''0''))"

definition specNumeral :: "int \<Rightarrow> string \<Rightarrow> bool" where
  "specNumeral n s =
     (if n < 0 then take 1 s = ''-'' \<and> isDecimal (drop 1 s) \<and> - int (decimalValue (drop 1 s)) = n
      else isDecimal s \<and> int (decimalValue s) = n)"

text \<open>
  A bullet is the collapsed text followed, when the highlight has page entries, by the
  list of its distinct 1-based pages in ascending order. A group is the heading of its
  colour, one bullet per highlight of that colour in input order, and an empty line;
  only a colour that has a highlight forms a group, and the groups come in the order
  flashcard, yellow, green, blue.
\<close>

definition specPages :: "Highlight \<Rightarrow> int list" where
  "specPages h = sorted_list_of_set ((\<lambda>p. page p + 1) ` set (pages h))"

definition specBullet :: "Highlight \<Rightarrow> string" where
  "specBullet h =
     ''- '' @ specText (htext h)
       @ (if pages h = [] then []
          else '' (pages '' @ specJoin '', '' (map intToString (specPages h)) @ '')'')"

definition specHeading :: "HighlightColor \<Rightarrow> string" where
  "specHeading c =
     (case c of FlashcardColor \<Rightarrow> ''## Flashcard'' | Yellow \<Rightarrow> ''## Yellow''
      | Green \<Rightarrow> ''## Green'' | Blue \<Rightarrow> ''## Blue'')"

definition specGroup :: "Highlight list \<Rightarrow> HighlightColor \<Rightarrow> string list" where
  "specGroup hs c =
     (if filter (\<lambda>h. color h = c) hs = [] then []
      else specHeading c # map specBullet (filter (\<lambda>h. color h = c) hs) @ [[]])"

definition specLines :: "Highlight list \<Rightarrow> string list" where
  "specLines hs = concat (map (specGroup hs) [FlashcardColor, Yellow, Green, Blue])"

text \<open>
  The exported text: every line ended by a line feed, then all white space at the end
  taken away and one line feed put back.
\<close>

definition specStripEnd :: "string \<Rightarrow> string" where
  "specStripEnd s = take (length s - length (takeWhile isSpace (rev s))) s"

definition specExport :: "Highlight list \<Rightarrow> string" where
  "specExport hs =
     specStripEnd (concat (map (\<lambda>l. l @ [CHR 0x0A]) (specLines hs))) @ [CHR 0x0A]"

section \<open>Flashcard generation\<close>

definition markHighlightsGenerated ::
  "host \<Rightarrow> string \<Rightarrow> string list \<Rightarrow> plugin_state \<Rightarrow> plugin_state" where
  "markHighlightsGenerated H sourcePath ids st =
     (let st1 = ensureStorageFolder True st;
          path = highlightPathFor st1 sourcePath;
          existing = readJson H (assignHighlightFile H) st1 path
                       \<lparr>hfVersion = HIGHLIGHT_VERSION, hfSourcePath = sourcePath, highlights = []\<rparr>;
          idSet = set ids;
          existing1 = existing\<lparr>highlights :=
                        map (\<lambda>h. if hid h \<in> idSet then h\<lparr>flashcardGenerated := Some True\<rparr> else h)
                          (highlights existing)\<rparr>
      in writeJson (stringifyHighlightFile H) path existing1 st1)"

text \<open>
  The filter \<^verbatim>\<open>h.isFlashcard && !h.flashcardGenerated\<close>: a flashcard highlight is pending
  unless its \<^verbatim>\<open>flashcardGenerated\<close> is present and true.
\<close>

definition pendingHighlight :: "Highlight \<Rightarrow> bool" where
  "pendingHighlight h =
     (isFlashcard h \<and> (case flashcardGenerated h of None \<Rightarrow> True | Some b \<Rightarrow> \<not> b))"

text \<open>\<^verbatim>\<open>xs.map((x, idx) => f(x, idx))\<close>: the elements with their positions, from 0.\<close>

definition withIndex :: "'a list \<Rightarrow> ('a \<times> nat) list" where
  "withIndex xs = zip xs [0 ..< length xs]"

definition systemPrompt :: string where
  "systemPrompt = ''You are a helpful assistant that turns study highlights into flashcards.''"

definition userPrompt :: "Highlight list \<Rightarrow> string" where
  "userPrompt flashcardHighlights =
     ''Create concise flashcards from the following highlights. ''
     @ ''Return a JSON array where each item has 'question' and 'answer'. ''
     @ ''Avoid markdown, and keep questions short and clear.'' @ newline @ newline
     @ joinWith newline
         (map (\<lambda>(h, idx). ''('' @ natToString 10 (idx + 1) @ '') '' @ htext h)
            (withIndex flashcardHighlights))"

text \<open>
  \<^verbatim>\<open>generateFlashcardsFromActivePdf\<close>. Its inputs are the path of the active PDF file,
  if there is one, the remote call \<open>callOpenAI\<close> as a function of the two prompts
  (\<open>None\<close> where it throws), the ids \<open>newIds\<close> that the clock and the random generator
  give to the cards by position, and the clock reading \<open>now\<close>. The result is the notice
  shown, the list \<^verbatim>\<open>newCards\<close> handed to \<^verbatim>\<open>addCards\<close> (empty when the run ends before
  that), and the plugin state. The refresh of the open views is not modelled.
\<close>

definition generateFlashcardsFromActivePdf ::
  "host \<Rightarrow> (string \<Rightarrow> string \<Rightarrow> string option) \<Rightarrow> (nat \<Rightarrow> string) \<Rightarrow> int \<Rightarrow> string option
    \<Rightarrow> plugin_state \<Rightarrow> string \<times> Flashcard list \<times> plugin_state" where
  "generateFlashcardsFromActivePdf H callOpenAI newIds now file st =
     (case file of
        None \<Rightarrow> (''Open a PDF first.'', [], st)
      | Some filePath \<Rightarrow>
          if apiKey st = [] then (''Set your OpenAI API key in the plugin settings.'', [], st)
          else
            (let hs = loadHighlights H filePath st;
                 flashcardHighlights = filter pendingHighlight hs
             in if length flashcardHighlights = 0
                then (''No new flashcard highlights found.'', [], st)
                else
                  (case callOpenAI systemPrompt (userPrompt flashcardHighlights) of
                     None \<Rightarrow> (''Failed to generate flashcards.'', [], st)
                   | Some response \<Rightarrow>
                       (let drafts = parseFlashcards H response
                        in if length drafts = 0
                           then (''No flashcards returned by the model.'', [], st)
                           else
                             (let nowIso = toISOString H now;
                                  newCards =
                                    map (\<lambda>(d, idx).
                                          \<lparr>cardId = newIds idx, cardSourcePath = filePath,
                                           highlightIds = map hid flashcardHighlights,
                                           question = draftQuestion d, answer = draftAnswer d,
                                           cardCreatedAt = nowIso\<rparr>)
                                      (withIndex drafts);
                                  st1 = addCards H newCards st;
                                  st2 = markHighlightsGenerated H filePath
                                          (map hid flashcardHighlights) st1
                              in (''Generated '' @ natToString 10 (length newCards)
                                    @ '' flashcards.'',
                                  newCards, st2))))))"

section \<open>Auxiliary definitions and example inputs\<close>

text \<open>
  The condition under which a read falls back: at \<open>path\<close> there is no file, or the read
  rejects, or the text is not JSON.
\<close>

definition unusable :: "host \<Rightarrow> plugin_state \<Rightarrow> string \<Rightarrow> bool" where
  "unusable H st path =
     (case files st path of
        Missing \<Rightarrow> True
      | Unreadable \<Rightarrow> True
      | Content raw \<Rightarrow> JSON_parse H raw = None)"

text \<open>
  The progress map after one card is graded: what \<^verbatim>\<open>updateProgressOptimistic\<close> does to
  \<^verbatim>\<open>data.progress\<close>.
\<close>

definition gradedProgress ::
  "host \<Rightarrow> int \<Rightarrow> bool \<Rightarrow> string \<Rightarrow> (string \<times> CardProgress) list \<Rightarrow> (string \<times> CardProgress) list" where
  "gradedProgress H now g cid prog =
     AList.update cid (buildNextProgress H now (map_of prog cid) g) prog"

text \<open>
  A host whose \<^verbatim>\<open>JSON.parse\<close> rejects every text and whose arithmetic is exact, and a
  vault with no file at all.
\<close>

definition exampleHost :: host where
  "exampleHost =
     \<lparr>toISOString = (\<lambda>t. ''t''), setDate = (\<lambda>t k. t + k * 86400000),
      JSON_parse = (\<lambda>raw. None), numberToString = (\<lambda>r. ''0''),
      assignHighlightFile = (\<lambda>fallback v. fallback),
      assignFlashcardFile = (\<lambda>fallback v. fallback),
      assignProgressFile = (\<lambda>fallback v. fallback),
      stringifyHighlightFile = (\<lambda>d. ''{}''),
      stringifyFlashcardFile = (\<lambda>d. ''{}''),
      stringifyProgressFile = (\<lambda>d. ''{}''),
      roundDouble = Fin\<rparr>"

definition emptyVault :: plugin_state where
  "emptyVault =
     \<lparr>apiKey = ''k'', storageFolder = ''.flashcards'', files = (\<lambda>path. Missing),
      folders = {}, progressCache = None\<rparr>"

definition corruptVault :: plugin_state where
  "corruptVault = emptyVault\<lparr>files := (\<lambda>path. Content ''{oops'')\<rparr>"

definition exampleCard :: "string \<Rightarrow> Flashcard" where
  "exampleCard n =
     \<lparr>cardId = n, cardSourcePath = ''manual'', highlightIds = [], question = ''Q'' @ n,
      answer = ''A'' @ n, cardCreatedAt = ''t''\<rparr>"

text \<open>
  A review session just opened on the cards A, B, C with no progress stored, and the
  session after one, two and three clicks on Good.
\<close>

definition exampleView :: FlashcardView where
  "exampleView =
     \<lparr>viewCards = [exampleCard ''A'', exampleCard ''B'', exampleCard ''C''], viewIndex = 0,
      showingAnswer = False, viewProgress = []\<rparr>"

definition afterGood1 :: "host \<Rightarrow> int \<Rightarrow> FlashcardView \<times> plugin_state" where
  "afterGood1 H t1 = handleGrade H t1 True (exampleView, emptyVault)"

definition afterGood2 :: "host \<Rightarrow> int \<Rightarrow> int \<Rightarrow> FlashcardView \<times> plugin_state" where
  "afterGood2 H t1 t2 = handleGrade H t2 True (afterGood1 H t1)"

definition afterGood3 :: "host \<Rightarrow> int \<Rightarrow> int \<Rightarrow> int \<Rightarrow> FlashcardView \<times> plugin_state" where
  "afterGood3 H t1 t2 t3 = handleGrade H t3 True (afterGood2 H t1 t2)"

text \<open>
  A selection none of whose retained rectangles (wider and higher than one pixel) has
  its centre in a mounted page.
\<close>

definition offPage :: "Selection \<Rightarrow> PageEl list \<Rightarrow> bool" where
  "offPage selection pageEls =
     (\<forall>r\<in>set (clientRects selection). rectWidth r > 1 \<and> rectHeight r > 1
        \<longrightarrow> (\<forall>pageEl\<in>set pageEls. \<not> containsCenter r (box pageEl)))"

text \<open>
  Example geometry: a page of 100 by 200 pixels at the origin, a selection rectangle on
  it and one beside it; a page element whose box has collapsed to the point (0, 0) and
  a selection rectangle centred on that point.
\<close>

definition examplePage :: PageEl where
  "examplePage =
     \<lparr>dataPageNumber = Some 3, box = \<lparr>rectX = 0, rectY = 0, rectWidth = 100, rectHeight = 200\<rparr>\<rparr>"


definition strayRect :: DOMRect where
  "strayRect = \<lparr>rectX = 300, rectY = 20, rectWidth = 30, rectHeight = 8\<rparr>"

definition straySelection :: Selection where
  "straySelection =
     \<lparr>isCollapsed = False, rangeCount = 1, clientRects = [strayRect], selText = ''abc''\<rparr>"



text \<open>
  The accuracy of the host's arithmetic: wherever a rounded result is finite it is
  within the relative error \<open>u\<close> plus the absolute error \<open>eta\<close> of the exact one. For
  IEEE doubles rounded to nearest, \<open>u\<close> is \<open>2^-53\<close> and \<open>eta\<close> is \<open>2^-1075\<close>.
\<close>

definition roundsWithin :: "host \<Rightarrow> real \<Rightarrow> real \<Rightarrow> bool" where
  "roundsWithin H u eta =
     (0 \<le> u \<and> 0 \<le> eta \<and> (\<forall>x y. roundDouble H x = Fin y \<longrightarrow> \<bar>y - x\<bar> \<le> u * \<bar>x\<bar> + eta))"






text \<open>\<^verbatim>\<open>Array.isArray\<close> on a parsed value.\<close>

fun isArray :: "json \<Rightarrow> bool" where
  "isArray (JArr xs) = True"
| "isArray v = False"

text \<open>
  A host whose \<^verbatim>\<open>JSON.parse\<close> knows the listed texts and rejects every other one, and
  three response texts with the values they parse to: an array whose only item has an
  empty question; an array of a complete item, an item with an empty question, an item
  without a question and a number; an array of a complete item and an item whose
  question is an object with a member called \<^verbatim>\<open>toString\<close>.
\<close>

definition tableHost :: "(string \<times> json) list \<Rightarrow> host" where
  "tableHost replies = exampleHost\<lparr>JSON_parse := map_of replies\<rparr>"

definition emptyQuestionReply :: string where
  \<open>emptyQuestionReply = ''[{"question":"","answer":"4"}]''\<close>

definition emptyQuestionItem :: json where
  "emptyQuestionItem = JObj [(''question'', JStr []), (''answer'', JStr ''4'')]"

definition mixedReply :: string where
  \<open>mixedReply = ''[{"question":"2+2?","answer":"4"},{"question":"","answer":"x"},{"answer":"y"},7]''\<close>

definition mixedItems :: "json list" where
  "mixedItems =
     [JObj [(''question'', JStr ''2+2?''), (''answer'', JStr ''4'')],
      JObj [(''question'', JStr []), (''answer'', JStr ''x'')],
      JObj [(''answer'', JStr ''y'')],
      JNum 7]"

definition throwingReply :: string where
  \<open>throwingReply = ''[{"question":"2+2?","answer":"4"},{"question":{"toString":1},"answer":"x"}]''\<close>

definition throwingItems :: "json list" where
  "throwingItems =
     [JObj [(''question'', JStr ''2+2?''), (''answer'', JStr ''4'')],
      JObj [(''question'', JObj [(''toString'', JNum 1)]), (''answer'', JStr ''x'')]]"

text \<open>The list stored for a key of \<^verbatim>\<open>groups\<close>, empty when the key is absent.\<close>

definition lookupList :: "('k \<times> 'v list) list \<Rightarrow> 'k \<Rightarrow> 'v list" where
  "lookupList groups c = (case map_of groups c of None \<Rightarrow> [] | Some l \<Rightarrow> l)"

text \<open>
  A highlight with the given id, colour, text and zero-based pages; a host that parses
  the text \<open>stored\<close> to a highlight file with three highlights, of which the first and
  the third are pending flashcard highlights, and knows the response \<open>twoCardReply\<close>
  of two complete items; a vault every path of which holds \<open>stored\<close>; a remote call
  that answers \<open>twoCardReply\<close>; ids numbered by position.
\<close>

definition exampleHighlight :: "string \<Rightarrow> HighlightColor \<Rightarrow> string \<Rightarrow> int list \<Rightarrow> Highlight" where
  "exampleHighlight i c t ps =
     \<lparr>hid = i, color = c, isFlashcard = (c = FlashcardColor), htext = t, createdAt = ''t'',
      pages = map (\<lambda>n. \<lparr>page = n, rects = []\<rparr>) ps, flashcardGenerated = None\<rparr>"

definition storedHighlights :: "Highlight list" where
  "storedHighlights =
     [exampleHighlight ''h1'' FlashcardColor ''two plus two'' [0],
      exampleHighlight ''h2'' Yellow ''a note'' [1],
      exampleHighlight ''h3'' FlashcardColor ''is four'' [1]]"

definition twoCardReply :: string where
  \<open>twoCardReply = ''[{"question":"2+2?","answer":"4"},{"question":"3+3?","answer":"6"}]''\<close>

definition twoCardItems :: "json list" where
  "twoCardItems =
     [JObj [(''question'', JStr ''2+2?''), (''answer'', JStr ''4'')],
      JObj [(''question'', JStr ''3+3?''), (''answer'', JStr ''6'')]]"

definition generationHost :: host where
  "generationHost =
     exampleHost
       \<lparr>JSON_parse := map_of [(''stored'', JNull), (twoCardReply, JArr twoCardItems)],
        assignHighlightFile := (\<lambda>fallback v. fallback\<lparr>highlights := storedHighlights\<rparr>)\<rparr>"

definition storedVault :: plugin_state where
  "storedVault = emptyVault\<lparr>files := (\<lambda>path. Content ''stored'')\<rparr>"

definition exampleCall :: "string \<Rightarrow> string \<Rightarrow> string option" where
  "exampleCall sys usr = Some twoCardReply"

definition exampleIds :: "nat \<Rightarrow> string" where
  "exampleIds i = ''card'' @ natToString 10 i"

section \<open>Properties\<close>

subsection \<open>Scheduler lemmas\<close>

lemma buildNextProgress_default:
  "buildNextProgress H now None g = buildNextProgress H now (Some defaultProgress) g"
  by (simp add: buildNextProgress_def)

lemma applyGrades_snoc:
  "applyGrades H p (gs @ [(g, now)]) = buildNextProgress H now (Some (applyGrades H p gs)) g"
  by (induction gs arbitrary: p) auto

lemma buildNextProgress_streak_nonneg:
  "0 \<le> streak p \<Longrightarrow> 0 \<le> streak (buildNextProgress H now (Some p) g)"
  by (simp add: buildNextProgress_def Let_def)

lemma applyGrades_streak_nonneg:
  "0 \<le> streak p \<Longrightarrow> 0 \<le> streak (applyGrades H p gs)"
proof (induction gs arbitrary: p)
  case Nil
  then show ?case by simp
next
  case (Cons a gs)
  obtain g now where a: "a = (g, now)" by (cases a)
  show ?case
    unfolding a applyGrades.simps
    by (rule Cons.IH) (rule buildNextProgress_streak_nonneg [OF Cons.prems])
qed

lemma applyGrades_done_last:
  "gs \<noteq> [] \<Longrightarrow> doneFlag (applyGrades H p gs) = Some (fst (last gs))"
proof (induction gs rule: rev_induct)
  case Nil
  then show ?case by simp
next
  case (snoc a gs)
  obtain g now where a: "a = (g, now)" by (cases a)
  show ?case
    by (simp add: a applyGrades_snoc buildNextProgress_def Let_def)
qed

text \<open>
  C1. The three worked examples of the scheduler: no previous state graded good gives
  streak 1, interval 1, done; a previous state with streak 1 and interval 1 graded good
  gives streak 2, interval 3, done; any previous state (or none) graded again gives
  streak 0, interval 0, not done.
\<close>

theorem buildNextProgress_examples:
  "streak (buildNextProgress H now None True) = 1
   \<and> intervalDays (buildNextProgress H now None True) = 1
   \<and> doneFlag (buildNextProgress H now None True) = Some True
   \<and> streak (buildNextProgress H now
        (Some \<lparr>lastReviewedAt = lr, nextDueAt = nd, streak = 1, intervalDays = 1, doneFlag = d\<rparr>)
        True) = 2
   \<and> intervalDays (buildNextProgress H now
        (Some \<lparr>lastReviewedAt = lr, nextDueAt = nd, streak = 1, intervalDays = 1, doneFlag = d\<rparr>)
        True) = 3
   \<and> doneFlag (buildNextProgress H now
        (Some \<lparr>lastReviewedAt = lr, nextDueAt = nd, streak = 1, intervalDays = 1, doneFlag = d\<rparr>)
        True) = Some True
   \<and> streak (buildNextProgress H now previous False) = 0
   \<and> intervalDays (buildNextProgress H now previous False) = 0
   \<and> doneFlag (buildNextProgress H now previous False) = Some False"
  by (simp add: buildNextProgress_def defaultProgress_def Let_def)

text \<open>
  C4. A missing previous state is graded as the default state (streak 0, interval 0).
  After any sequence of grades run through the scheduler from the default state: the
  card is done exactly when there was a grade and the most
  recent one was good; one more negative grade leaves streak 0 and interval 0; one more
  positive grade never lowers the interval.
\<close>

theorem applyGrades_invariant:
  "buildNextProgress H t None g = buildNextProgress H t (Some defaultProgress) g
   \<and> (doneFlag (applyGrades H defaultProgress gs) = Some True) = (gs \<noteq> [] \<and> fst (last gs))
   \<and> streak (applyGrades H defaultProgress (gs @ [(False, t)])) = 0
   \<and> intervalDays (applyGrades H defaultProgress (gs @ [(False, t)])) = 0
   \<and> intervalDays (applyGrades H defaultProgress gs)
        \<le> intervalDays (applyGrades H defaultProgress (gs @ [(True, t)]))"
proof -
  let ?p = "applyGrades H defaultProgress gs"
  have nonneg: "0 \<le> streak ?p"
    by (rule applyGrades_streak_nonneg) (simp add: defaultProgress_def)
  have d: "(doneFlag ?p = Some True) = (gs \<noteq> [] \<and> fst (last gs))"
  proof (cases "gs = []")
    case True
    then show ?thesis by (simp add: defaultProgress_def)
  next
    case False
    then show ?thesis by (simp add: applyGrades_done_last)
  qed
  have again: "streak (buildNextProgress H t (Some ?p) False) = 0
      \<and> intervalDays (buildNextProgress H t (Some ?p) False) = 0"
    by (simp add: buildNextProgress_def Let_def)
  have good: "intervalDays ?p \<le> intervalDays (buildNextProgress H t (Some ?p) True)"
    using nonneg by (simp add: buildNextProgress_def Let_def)
  show ?thesis
    using d again good buildNextProgress_default [of H t g] by (simp add: applyGrades_snoc)
qed

subsection \<open>Store lemmas\<close>

lemma readJson_files:
  "readJson H assign st path fallback =
     (case files st path of
        Content raw \<Rightarrow> (case JSON_parse H raw of None \<Rightarrow> fallback | Some v \<Rightarrow> assign fallback v)
      | Missing \<Rightarrow> fallback
      | Unreadable \<Rightarrow> fallback)"
  by (simp add: readJson_def readJson_try_def adapter_read_def adapter_exists_def
      split: raw_file.splits option.splits)

lemma ensureStorageFolder_fields:
  "files (ensureStorageFolder c st) = files st"
  "progressCache (ensureStorageFolder c st) = progressCache st"
  "storageFolder (ensureStorageFolder c st) = storageFolder st"
  "apiKey (ensureStorageFolder c st) = apiKey st"
  by (simp_all add: ensureStorageFolder_def Let_def)

lemma ensureStorageFolder_False: "ensureStorageFolder False st = st"
  by (simp add: ensureStorageFolder_def Let_def)

lemma progressPath_ensure: "progressPath (ensureStorageFolder c st) = progressPath st"
  by (simp add: progressPath_def ensureStorageFolder_fields)

lemma flashcardPath_ensure: "flashcardPath (ensureStorageFolder c st) = flashcardPath st"
  by (simp add: flashcardPath_def ensureStorageFolder_fields)

lemma progressData_ensure: "progressData H (ensureStorageFolder c st) = progressData H st"
  by (simp add: progressData_def readJson_files ensureStorageFolder_fields progressPath_ensure
      split: option.splits)

lemma flashcardPath_neq_progressPath: "flashcardPath st \<noteq> progressPath st'"
  by (simp add: flashcardPath_def progressPath_def)

lemma progressData_cached: "progressCache st = Some d \<Longrightarrow> progressData H st = d"
  by (simp add: progressData_def)

lemma progressData_writeJson_other:
  "path \<noteq> progressPath st \<Longrightarrow> progressData H (writeJson f path d st) = progressData H st"
  by (simp add: progressData_def writeJson_def readJson_files progressPath_def
      split: option.splits)

lemma loadProgress_fst: "fst (loadProgress H st) = progress (progressData H st)"
  by (simp add: loadProgress_def progressData_def ensureStorageFolder_False Let_def
      split: option.splits)

lemma loadProgress_cached:
  "progressCache st = Some d \<Longrightarrow> loadProgress H st = (progress d, st)"
  by (simp add: loadProgress_def ensureStorageFolder_False Let_def)

lemma prune_fold:
  "map_of (foldl (\<lambda>m k. if k \<notin> ids then AList.delete k m else m) al ks) k =
     (if k \<in> set ks \<and> k \<notin> ids then None else map_of al k)"
proof (induction ks arbitrary: al)
  case Nil
  then show ?case by simp
next
  case (Cons a ks)
  show ?case
    by (simp add: Cons.IH delete_conv')
qed

lemma prune_keys:
  "map_of (foldl (\<lambda>m k. if k \<notin> ids then AList.delete k m else m) al (map fst al)) k =
     (if k \<in> ids then map_of al k else None)"
proof (cases "k \<in> fst ` set al")
  case True
  then show ?thesis by (simp add: prune_fold)
next
  case False
  then have "map_of al k = None" by (simp add: map_of_eq_None_iff)
  then show ?thesis by (simp add: prune_fold)
qed

lemma progressData_pruneProgress:
  "map_of (progress (progressData H (pruneProgress H cs st))) k =
     (if k \<in> set (map cardId cs) then map_of (progress (progressData H st)) k else None)"
  by (simp add: pruneProgress_def Let_def progressData_cached prune_keys)

lemma progressData_replaceAllCards:
  "map_of (progress (progressData H (replaceAllCards H cs st))) k =
     (if k \<in> set (map cardId cs) then map_of (progress (progressData H st)) k else None)"
proof -
  let ?st1 = "ensureStorageFolder True st"
  let ?st2 = "writeJson (stringifyFlashcardFile H) (flashcardPath ?st1)
                \<lparr>ffVersion = FLASHCARD_VERSION, cards = cs\<rparr> ?st1"
  have "progressData H ?st2 = progressData H st"
    by (simp add: progressData_writeJson_other flashcardPath_neq_progressPath progressData_ensure)
  then show ?thesis
    by (simp add: replaceAllCards_def Let_def progressData_pruneProgress)
qed

lemma progressData_removeProgress:
  "map_of (progress (progressData H (removeProgress H cid st))) k =
     (if k = cid then None else map_of (progress (progressData H st)) k)"
  by (simp add: removeProgress_def Let_def progressData_cached delete_conv' progressData_ensure)

lemma updateProgressOptimistic_cache:
  "progressCache (snd (updateProgressOptimistic H now cid g st)) =
     Some ((progressData H st)\<lparr>progress :=
        gradedProgress H now g cid (progress (progressData H st))\<rparr>)"
  by (simp add: updateProgressOptimistic_def Let_def writeJson_def progressData_ensure
      gradedProgress_def)

lemma readJson_unusable:
  "unusable H st path \<Longrightarrow> readJson H assign st path fallback = fallback"
  by (simp add: readJson_files unusable_def split: raw_file.splits)

text \<open>
  C5. After the Delete handler of the manager has run for a card, the progress map has
  no entry for that card's id. After the flashcard set is replaced by a list, the
  progress map has, at every id, the entry it had before if the id is the id of a card
  of the list, and no entry otherwise.
\<close>

theorem delete_and_replace_prune_progress:
  "map_of (fst (loadProgress H (snd (deleteClick H i crd (cs, st))))) (cardId crd) = None
   \<and> map_of (fst (loadProgress H (replaceAllCards H cs st))) k =
       (if k \<in> set (map cardId cs) then map_of (fst (loadProgress H st)) k else None)"
  by (simp add: loadProgress_fst deleteClick_def Let_def progressData_removeProgress
      progressData_replaceAllCards)

text \<open>
  C6. \<open>readJson\<close> returns a document for every state of the vault and every text: the
  fallback when the file is missing, unreadable or not JSON, and the parsed value laid
  over the fallback otherwise; no case is left in which the error of the \<^verbatim>\<open>try\<close> block
  escapes. For the three document kinds the fallback is the typed-empty default, so
  the highlights, the cards and the progress map read from an unusable file are empty.
\<close>

theorem readJson_never_throws:
  "(unusable H st path \<longrightarrow> readJson H assign st path fallback = fallback)
   \<and> (files st path = Content raw \<and> JSON_parse H raw = Some v
        \<longrightarrow> readJson H assign st path fallback = assign fallback v)
   \<and> (unusable H st (highlightPathFor st sp)
        \<longrightarrow> readJson H (assignHighlightFile H) st (highlightPathFor st sp)
              \<lparr>hfVersion = HIGHLIGHT_VERSION, hfSourcePath = sp, highlights = []\<rparr>
            = \<lparr>hfVersion = HIGHLIGHT_VERSION, hfSourcePath = sp, highlights = []\<rparr>
          \<and> loadHighlights H sp st = [])
   \<and> (unusable H st (flashcardPath st)
        \<longrightarrow> readJson H (assignFlashcardFile H) st (flashcardPath st)
              \<lparr>ffVersion = FLASHCARD_VERSION, cards = []\<rparr>
            = \<lparr>ffVersion = FLASHCARD_VERSION, cards = []\<rparr>
          \<and> loadAllCards H st = [])
   \<and> (unusable H st (progressPath st)
        \<longrightarrow> readJson H (assignProgressFile H) st (progressPath st)
              \<lparr>pfVersion = PROGRESS_VERSION, progress = []\<rparr>
            = \<lparr>pfVersion = PROGRESS_VERSION, progress = []\<rparr>
          \<and> (progressCache st = None \<longrightarrow> fst (loadProgress H st) = []))"
proof -
  note fb = readJson_unusable
  have parsed: "readJson H assign st path fallback = assign fallback v"
    if "files st path = Content raw" "JSON_parse H raw = Some v"
    using that by (simp add: readJson_files)
  have hl: "loadHighlights H sp st = []" if "unusable H st (highlightPathFor st sp)"
    using that by (simp add: loadHighlights_def ensureStorageFolder_False Let_def fb)
  have fc: "loadAllCards H st = []" if "unusable H st (flashcardPath st)"
    using that by (simp add: loadAllCards_def ensureStorageFolder_False Let_def fb)
  have pr: "fst (loadProgress H st) = []"
    if "unusable H st (progressPath st)" "progressCache st = None"
    using that by (simp add: loadProgress_fst progressData_def fb)
  show ?thesis
    using parsed hl fc pr by (simp add: fb)
qed

theorem readJson_never_throws_witness:
  "unusable exampleHost corruptVault (progressPath corruptVault)
   \<and> unusable exampleHost corruptVault (flashcardPath corruptVault)
   \<and> unusable exampleHost corruptVault (highlightPathFor corruptVault ''a.pdf'')
   \<and> unusable exampleHost emptyVault ''p''
   \<and> progressCache corruptVault = None
   \<and> readJson exampleHost (assignProgressFile exampleHost) emptyVault ''p''
        \<lparr>pfVersion = PROGRESS_VERSION, progress = []\<rparr>
      = \<lparr>pfVersion = PROGRESS_VERSION, progress = []\<rparr>
   \<and> loadHighlights exampleHost ''a.pdf'' corruptVault = []
   \<and> loadAllCards exampleHost corruptVault = []
   \<and> fst (loadProgress exampleHost corruptVault) = []
   \<and> readJson (exampleHost\<lparr>JSON_parse := (\<lambda>raw. Some JNull)\<rparr>) (\<lambda>fallback v. v)
        corruptVault ''p'' (JBool True) = JNull"
proof -
  have u: "unusable exampleHost corruptVault p" for p
    by (simp add: unusable_def corruptVault_def exampleHost_def)
  have e: "unusable exampleHost emptyVault ''p''"
    by (simp add: unusable_def emptyVault_def)
  have c: "progressCache corruptVault = None"
    by (simp add: corruptVault_def emptyVault_def)
  have f: "files corruptVault ''p'' = Content ''{oops''"
    by (simp add: corruptVault_def)
  show ?thesis
    using u e c
      readJson_never_throws [of exampleHost corruptVault "''p''" "assignProgressFile exampleHost"
        "\<lparr>pfVersion = PROGRESS_VERSION, progress = []\<rparr>" "''{oops''" JNull "''a.pdf''"]
      readJson_never_throws [of exampleHost emptyVault "''p''" "assignProgressFile exampleHost"
        "\<lparr>pfVersion = PROGRESS_VERSION, progress = []\<rparr>" "''{oops''" JNull "''a.pdf''"]
      readJson_never_throws [of "exampleHost\<lparr>JSON_parse := (\<lambda>raw. Some JNull)\<rparr>" corruptVault
        "''p''" "\<lambda>fallback v. v" "JBool True" "''{oops''" JNull "''a.pdf''"]
      f
    by simp
qed

subsection \<open>Review session lemmas\<close>

lemma buildNextProgress_doneFlag: "doneFlag (buildNextProgress H now previous g) = Some g"
  by (simp add: buildNextProgress_def Let_def)

lemma handleGrade_current:
  assumes "currentCard v = Some crd"
  shows "fst (handleGrade H now g (v, st)) =
           (let prog = gradedProgress H now g (cardId crd) (progress (progressData H st));
                v1 = v\<lparr>viewProgress := prog\<rparr>;
                n = length (remainingCards v1)
            in v1\<lparr>viewIndex := (if n > 0 then (viewIndex v + 1) mod n else 0),
                  showingAnswer := False\<rparr>)"
    and "progress (progressData H (snd (handleGrade H now g (v, st)))) =
           gradedProgress H now g (cardId crd) (progress (progressData H st))"
proof -
  obtain cur st1 where u: "updateProgressOptimistic H now (cardId crd) g st = (cur, st1)"
    by (cases "updateProgressOptimistic H now (cardId crd) g st")
  have c: "progressCache st1 = Some ((progressData H st)\<lparr>progress :=
        gradedProgress H now g (cardId crd) (progress (progressData H st))\<rparr>)"
    using updateProgressOptimistic_cache [of H now "cardId crd" g st] u by simp
  show "fst (handleGrade H now g (v, st)) =
           (let prog = gradedProgress H now g (cardId crd) (progress (progressData H st));
                v1 = v\<lparr>viewProgress := prog\<rparr>;
                n = length (remainingCards v1)
            in v1\<lparr>viewIndex := (if n > 0 then (viewIndex v + 1) mod n else 0),
                  showingAnswer := False\<rparr>)"
    by (simp add: handleGrade_def assms u loadProgress_cached [OF c] Let_def)
  show "progress (progressData H (snd (handleGrade H now g (v, st)))) =
           gradedProgress H now g (cardId crd) (progress (progressData H st))"
    by (simp add: handleGrade_def assms u loadProgress_cached [OF c] Let_def
        progressData_cached [OF c] split: if_splits)
qed

lemma handleGrade_pair:
  assumes "currentCard (fst vs) = Some crd"
  shows "fst (handleGrade H now g vs) =
           (let prog = gradedProgress H now g (cardId crd) (progress (progressData H (snd vs)));
                v1 = (fst vs)\<lparr>viewProgress := prog\<rparr>;
                n = length (remainingCards v1)
            in v1\<lparr>viewIndex := (if n > 0 then (viewIndex (fst vs) + 1) mod n else 0),
                  showingAnswer := False\<rparr>)
         \<and> progress (progressData H (snd (handleGrade H now g vs))) =
           gradedProgress H now g (cardId crd) (progress (progressData H (snd vs)))"
  using handleGrade_current [of "fst vs" crd H now g "snd vs"] assms by simp

lemma emptyVault_progress: "progress (progressData H emptyVault) = []"
  by (simp add: progressData_def emptyVault_def readJson_files)

lemmas session_eval = remainingCards_def currentCard_def notDone_def exampleView_def
  exampleCard_def gradedProgress_def buildNextProgress_doneFlag Let_def

lemma exampleView_current:
  "remainingCards exampleView = [exampleCard ''A'', exampleCard ''B'', exampleCard ''C'']"
  "currentCard exampleView = Some (exampleCard ''A'')"
  by (simp_all add: session_eval)

lemma afterGood1_state:
  "fst (afterGood1 H t1) =
     exampleView\<lparr>viewProgress := [(''A'', buildNextProgress H t1 None True)], viewIndex := 1\<rparr>"
  "progress (progressData H (snd (afterGood1 H t1))) = [(''A'', buildNextProgress H t1 None True)]"
  using handleGrade_pair [of "(exampleView, emptyVault)" "exampleCard ''A''" H t1 True]
    exampleView_current(2)
  by (simp_all add: afterGood1_def emptyVault_progress session_eval)

lemma afterGood1_current:
  "remainingCards (fst (afterGood1 H t1)) = [exampleCard ''B'', exampleCard ''C'']"
  "currentCard (fst (afterGood1 H t1)) = Some (exampleCard ''C'')"
  by (simp_all add: afterGood1_state session_eval)

lemma afterGood2_state:
  "fst (afterGood2 H t1 t2) =
     exampleView\<lparr>viewProgress := [(''A'', buildNextProgress H t1 None True),
                                  (''C'', buildNextProgress H t2 None True)],
                 viewIndex := 0\<rparr>"
  "progress (progressData H (snd (afterGood2 H t1 t2))) =
     [(''A'', buildNextProgress H t1 None True), (''C'', buildNextProgress H t2 None True)]"
  using handleGrade_pair [of "afterGood1 H t1" "exampleCard ''C''" H t2 True]
    afterGood1_current(2)
  by (simp_all add: afterGood2_def afterGood1_state session_eval)

lemma afterGood2_current:
  "remainingCards (fst (afterGood2 H t1 t2)) = [exampleCard ''B'']"
  "currentCard (fst (afterGood2 H t1 t2)) = Some (exampleCard ''B'')"
  by (simp_all add: afterGood2_state session_eval)

lemma afterGood3_state:
  "fst (afterGood3 H t1 t2 t3) =
     exampleView\<lparr>viewProgress := [(''A'', buildNextProgress H t1 None True),
                                  (''C'', buildNextProgress H t2 None True),
                                  (''B'', buildNextProgress H t3 None True)],
                 viewIndex := 0\<rparr>"
  using handleGrade_pair [of "afterGood2 H t1 t2" "exampleCard ''B''" H t3 True]
    afterGood2_current(2)
  by (simp_all add: afterGood3_def afterGood2_state session_eval)

text \<open>
  C2. The session on the cards A, B, C with no progress: all three remain and A is
  current. After Good on A, A is done and B and C remain, but the rotation index has
  moved to 1, so the current card is C and not B. After Good on C the current card is
  B; after Good on B nothing remains, there is no current card and the screen is the
  finished one, which differs from the screen of a session that has no cards.
\<close>

theorem review_session_ABC:
  "remainingCards exampleView = [exampleCard ''A'', exampleCard ''B'', exampleCard ''C'']
   \<and> currentCard exampleView = Some (exampleCard ''A'')
   \<and> notDone (viewProgress (fst (afterGood1 H t1))) (exampleCard ''A'') = False
   \<and> remainingCards (fst (afterGood1 H t1)) = [exampleCard ''B'', exampleCard ''C'']
   \<and> viewIndex (fst (afterGood1 H t1)) = 1
   \<and> currentCard (fst (afterGood1 H t1)) = Some (exampleCard ''C'')
   \<and> currentCard (fst (afterGood1 H t1)) \<noteq> Some (exampleCard ''B'')
   \<and> currentCard (fst (afterGood2 H t1 t2)) = Some (exampleCard ''B'')
   \<and> remainingCards (fst (afterGood3 H t1 t2 t3)) = []
   \<and> currentCard (fst (afterGood3 H t1 t2 t3)) = None
   \<and> render (fst (afterGood3 H t1 t2 t3)) = FinishedAll
   \<and> render (exampleView\<lparr>viewCards := []\<rparr>) = NoFlashcardsYet"
proof -
  have a: "notDone (viewProgress (fst (afterGood1 H t1))) (exampleCard ''A'') = False"
    by (simp add: afterGood1_state session_eval)
  have i: "viewIndex (fst (afterGood1 H t1)) = 1"
    by (simp add: afterGood1_state)
  have n: "currentCard (fst (afterGood1 H t1)) \<noteq> Some (exampleCard ''B'')"
    by (simp add: afterGood1_current exampleCard_def)
  have f: "remainingCards (fst (afterGood3 H t1 t2 t3)) = []"
    "currentCard (fst (afterGood3 H t1 t2 t3)) = None"
    "render (fst (afterGood3 H t1 t2 t3)) = FinishedAll"
    "render (exampleView\<lparr>viewCards := []\<rparr>) = NoFlashcardsYet"
    by (simp_all add: afterGood3_state session_eval render_def)
  show ?thesis
    using exampleView_current afterGood1_current afterGood2_current a i n f by simp
qed

subsection \<open>Geometry lemmas\<close>


lemma placeRect_no_page:
  "(\<forall>pageEl\<in>set pageEls. \<not> containsCenter r (box pageEl))
   \<Longrightarrow> placeRect H pageEls pageMap r = pageMap"
proof -
  assume "\<forall>pageEl\<in>set pageEls. \<not> containsCenter r (box pageEl)"
  then have "find (\<lambda>pageEl. containsCenter r (box pageEl)) pageEls = None"
    by (simp add: find_None_iff)
  then show ?thesis by (simp add: placeRect_def)
qed

lemma foldl_placeRect_no_page:
  "(\<forall>r\<in>set rs. \<forall>pageEl\<in>set pageEls. \<not> containsCenter r (box pageEl))
   \<Longrightarrow> foldl (placeRect H pageEls) pageMap rs = pageMap"
  by (induction rs arbitrary: pageMap) (simp_all add: placeRect_no_page)

lemma buildHighlightFromSelection_offPage:
  assumes "offPage selection pageEls"
  shows "buildHighlightFromSelection H newId nowIso selection pageEls col = None"
proof -
  let ?rs = "filter (\<lambda>r. rectWidth r > 1 \<and> rectHeight r > 1) (clientRects selection)"
  have "\<forall>r\<in>set ?rs. \<forall>pageEl\<in>set pageEls. \<not> containsCenter r (box pageEl)"
    using assms by (simp add: offPage_def)
  then have "foldl (placeRect H pageEls) [] ?rs = []"
    by (rule foldl_placeRect_no_page)
  then show ?thesis
    by (simp add: buildHighlightFromSelection_def Let_def)
qed








lemmas geometry_eval = containsCenter_def centerX_def centerY_def rectLeft_def rectRight_def
  rectTop_def rectBottom_def

text \<open>
  C7. When no retained rectangle of the selection has its centre in a mounted page,
  \<open>buildHighlightFromSelection\<close> returns no highlight, and the toolbar click that
  attempted the capture leaves the plugin state, and so every file of the vault, as it
  was, showing a notice instead.
\<close>

theorem capture_off_page:
  assumes "offPage selection pageEls"
  shows "buildHighlightFromSelection H newId nowIso selection pageEls col = None
    \<and> snd (captureClick H newId nowIso col (Some selection) (Some pageEls) file st) = st
    \<and> fst (captureClick H newId nowIso col (Some selection) (Some pageEls) file st) =
        Some (if isCollapsed selection then ''Select text in the PDF first.''
              else ''Could not capture selection.'')"
  by (simp add: captureClick_def buildHighlightFromSelection_offPage [OF assms])

theorem capture_off_page_witness:
  "offPage straySelection [examplePage]
   \<and> buildHighlightFromSelection exampleHost ''id1'' ''t'' straySelection [examplePage] Yellow
       = None
   \<and> snd (captureClick exampleHost ''id1'' ''t'' Yellow (Some straySelection) (Some [examplePage])
        (Some ''a.pdf'') emptyVault) = emptyVault
   \<and> fst (captureClick exampleHost ''id1'' ''t'' Yellow (Some straySelection) (Some [examplePage])
        (Some ''a.pdf'') emptyVault) = Some ''Could not capture selection.''"
proof -
  have o: "offPage straySelection [examplePage]"
    by (simp add: offPage_def straySelection_def strayRect_def examplePage_def geometry_eval)
  have c: "\<not> isCollapsed straySelection"
    by (simp add: straySelection_def)
  show ?thesis
    using o c
      capture_off_page [OF o, of exampleHost "''id1''" "''t''" Yellow "Some ''a.pdf''" emptyVault]
    by simp
qed

subsection \<open>Rounding errors of the round trip\<close>











lemma roundsWithin_exact: "(\<forall>x. roundDouble H x = Fin x) \<Longrightarrow> roundsWithin H 0 0"
  by (simp add: roundsWithin_def)






subsection \<open>Generation output lemmas\<close>

lemma parseFlashcards_unparsable:
  "JSON_parse H raw = None \<Longrightarrow> parseFlashcards H raw = []"
  by (simp add: parseFlashcards_def parseFlashcards_try_def)

lemma parseFlashcards_not_array:
  "JSON_parse H raw = Some v \<Longrightarrow> \<not> isArray v \<Longrightarrow> parseFlashcards H raw = []"
  by (cases v) (simp_all add: parseFlashcards_def parseFlashcards_try_def)

lemma those_map_Some:
  "(\<forall>x\<in>set xs. f x \<noteq> None) \<Longrightarrow> \<exists>ys. those (map f xs) = Some ys \<and> map Some ys = map f xs"
  by (induction xs) auto

lemma those_None: "None \<in> set os \<Longrightarrow> those os = None"
  by (induction os) (auto split: option.splits)

lemma parseFlashcards_array:
  assumes "JSON_parse H raw = Some (JArr items)"
    and "\<forall>item\<in>set items. keepItem item \<longrightarrow> draftOf H item \<noteq> None"
  shows "map Some (parseFlashcards H raw) = map (draftOf H) (filter keepItem items)"
proof -
  have "\<forall>item\<in>set (filter keepItem items). draftOf H item \<noteq> None"
    using assms(2) by simp
  then obtain ds where "those (map (draftOf H) (filter keepItem items)) = Some ds"
    and "map Some ds = map (draftOf H) (filter keepItem items)"
    using those_map_Some by blast
  then show ?thesis
    by (simp add: parseFlashcards_def parseFlashcards_try_def assms(1))
qed

text \<open>
  When \<^verbatim>\<open>String\<close> throws on a field of one kept item, the \<^verbatim>\<open>catch\<close> discards the whole
  array, the convertible items with it.
\<close>

lemma parseFlashcards_throwing:
  assumes "JSON_parse H raw = Some (JArr items)"
    and "keepItem item" "item \<in> set items" "draftOf H item = None"
  shows "parseFlashcards H raw = []"
proof -
  have "draftOf H item \<in> set (map (draftOf H) (filter keepItem items))"
    using assms(2,3) by simp
  then have "None \<in> set (map (draftOf H) (filter keepItem items))"
    using assms(4) by simp
  then have "those (map (draftOf H) (filter keepItem items)) = None"
    by (rule those_None)
  then show ?thesis
    by (simp add: parseFlashcards_def parseFlashcards_try_def assms(1))
qed

lemma parseFlashcards_throwingReply:
  "parseFlashcards (tableHost [(throwingReply, JArr throwingItems)]) throwingReply = []"
  by (simp add: tableHost_def throwingItems_def parseFlashcards_def parseFlashcards_try_def
      keepItem_def draftOf_def propString_def)

lemma truthy_iff: "truthy v = (v \<notin> {JNull, JBool False, JNum 0, JStr []})"
  by (cases v) auto

lemma keepItem_iff:
  "keepItem item =
     (\<exists>q a. optionalProp item ''question'' = Some q \<and> optionalProp item ''answer'' = Some a
        \<and> q \<notin> {JNull, JBool False, JNum 0, JStr []} \<and> a \<notin> {JNull, JBool False, JNum 0, JStr []})"
  by (auto simp: keepItem_def truthy_iff split: option.splits)

lemma draftOf_fields:
  assumes "optionalProp item ''question'' = Some qv" "optionalProp item ''answer'' = Some av"
    and "jsString H qv = Some q" "jsString H av = Some a"
  shows "draftOf H item = Some \<lparr>draftQuestion = q, draftAnswer = a\<rparr>"
  using assms by (cases item) (simp_all add: draftOf_def propString_def)

text \<open>
  C8, as the code has it. \<open>parseFlashcards\<close> always returns a list: the empty list for
  a text that is not JSON and for a parsed value that is not an array. Of an array it
  keeps, in order, the items that have a question and an answer neither of which is
  falsy (\<^verbatim>\<open>null\<close>, \<^verbatim>\<open>false\<close>, \<open>0\<close> or the empty string) and drops every other item, an item
  being dropped exactly when a field is missing or falsy; each kept item becomes the
  pair of \<^verbatim>\<open>String(question)\<close> and \<^verbatim>\<open>String(answer)\<close>, provided these conversions
  succeed on every kept item.
\<close>

theorem parseFlashcards_cases:
  "(JSON_parse H raw = None \<longrightarrow> parseFlashcards H raw = [])
   \<and> (JSON_parse H raw = Some v \<and> \<not> isArray v \<longrightarrow> parseFlashcards H raw = [])
   \<and> (JSON_parse H raw = Some (JArr items)
        \<and> (\<forall>item\<in>set items. keepItem item \<longrightarrow> draftOf H item \<noteq> None)
       \<longrightarrow> map Some (parseFlashcards H raw) = map (draftOf H) (filter keepItem items))
   \<and> keepItem item =
       (\<exists>q a. optionalProp item ''question'' = Some q \<and> optionalProp item ''answer'' = Some a
          \<and> q \<notin> {JNull, JBool False, JNum 0, JStr []}
          \<and> a \<notin> {JNull, JBool False, JNum 0, JStr []})
   \<and> (optionalProp item ''question'' = Some qv \<and> optionalProp item ''answer'' = Some av
        \<and> jsString H qv = Some q \<and> jsString H av = Some a
       \<longrightarrow> draftOf H item = Some \<lparr>draftQuestion = q, draftAnswer = a\<rparr>)"
  using parseFlashcards_unparsable [of H raw] parseFlashcards_not_array [of H raw v]
    parseFlashcards_array [of H raw items] keepItem_iff [of item]
    draftOf_fields [of item qv av H q a]
  by blast

theorem parseFlashcards_cases_witness:
  "JSON_parse (tableHost [(mixedReply, JArr mixedItems)]) mixedReply = Some (JArr mixedItems)
   \<and> map keepItem mixedItems = [True, False, False, False]
   \<and> map Some (parseFlashcards (tableHost [(mixedReply, JArr mixedItems)]) mixedReply) =
       [Some \<lparr>draftQuestion = ''2+2?'', draftAnswer = ''4''\<rparr>]
   \<and> JSON_parse (tableHost [(mixedReply, JArr mixedItems)]) ''oops'' = None
   \<and> parseFlashcards (tableHost [(mixedReply, JArr mixedItems)]) ''oops'' = []
   \<and> JSON_parse (tableHost [(''7'', JNum 7)]) ''7'' = Some (JNum 7)
   \<and> parseFlashcards (tableHost [(''7'', JNum 7)]) ''7'' = []"
proof -
  let ?H = "tableHost [(mixedReply, JArr mixedItems)]"
  have p: "JSON_parse ?H mixedReply = Some (JArr mixedItems)"
    by (simp add: tableHost_def)
  have k: "map keepItem mixedItems = [True, False, False, False]"
    by (simp add: mixedItems_def keepItem_def)
  have d: "map (draftOf ?H) mixedItems =
      [Some \<lparr>draftQuestion = ''2+2?'', draftAnswer = ''4''\<rparr>,
       Some \<lparr>draftQuestion = [], draftAnswer = ''x''\<rparr>,
       Some \<lparr>draftQuestion = ''undefined'', draftAnswer = ''y''\<rparr>,
       Some \<lparr>draftQuestion = ''undefined'', draftAnswer = ''undefined''\<rparr>]"
    by (simp add: mixedItems_def draftOf_def propString_def)
  have a: "\<forall>item\<in>set mixedItems. keepItem item \<longrightarrow> draftOf ?H item \<noteq> None"
    using d by (simp add: mixedItems_def)
  have f: "map (draftOf ?H) (filter keepItem mixedItems) =
      [Some \<lparr>draftQuestion = ''2+2?'', draftAnswer = ''4''\<rparr>]"
    using k d by (simp add: mixedItems_def)
  have o: "JSON_parse ?H ''oops'' = None"
    by (simp add: tableHost_def mixedReply_def)
  have n: "JSON_parse (tableHost [(''7'', JNum 7)]) ''7'' = Some (JNum 7)"
    by (simp add: tableHost_def)
  show ?thesis
    using p k a f o n
      parseFlashcards_cases [of ?H mixedReply "JNum 7" mixedItems "JNum 7" "JNum 7" "JNum 7" "''a''" "''b''"]
      parseFlashcards_cases [of ?H "''oops''" "JNum 7" mixedItems "JNum 7" "JNum 7" "JNum 7" "''a''" "''b''"]
      parseFlashcards_cases [of "tableHost [(''7'', JNum 7)]" "''7''" "JNum 7" mixedItems "JNum 7"
        "JNum 7" "JNum 7" "''a''" "''b''"]
    by simp
qed

text \<open>
  C8 as stated fails on an item that has both fields but an empty question: the item
  is dropped although neither field is missing.
\<close>

theorem parseFlashcards_counterexample:
  "JSON_parse (tableHost [(emptyQuestionReply, JArr [emptyQuestionItem])]) emptyQuestionReply
      = Some (JArr [emptyQuestionItem])
   \<and> optionalProp emptyQuestionItem ''question'' = Some (JStr [])
   \<and> optionalProp emptyQuestionItem ''answer'' = Some (JStr ''4'')
   \<and> parseFlashcards (tableHost [(emptyQuestionReply, JArr [emptyQuestionItem])])
        emptyQuestionReply = []"
  by (simp add: tableHost_def emptyQuestionItem_def parseFlashcards_def parseFlashcards_try_def
      keepItem_def)

subsection \<open>Annotation exporter lemmas\<close>

lemma isSpace_space: "isSpace (CHR '' '')"
  by (simp add: isSpace_def)

lemma newline_LF: "newline = [CHR 0x0A]"
  by code_simp

lemma isSpace_LF: "isSpace (CHR 0x0A)"
  by (simp add: isSpace_def)

lemma isSpace_chars:
  "isSpace c = (c \<in> {CHR 0x09, CHR 0x0A, CHR 0x0B, CHR 0x0C, CHR 0x0D, CHR 0x20, CHR 0xA0})"
proof -
  have "of_char c = (of_char d :: nat) \<longleftrightarrow> c = d" for d
    by simp
  from this [of "CHR 0x09"] this [of "CHR 0x0A"] this [of "CHR 0x0B"] this [of "CHR 0x0C"]
    this [of "CHR 0x0D"] this [of "CHR 0x20"] this [of "CHR 0xA0"]
  show ?thesis
    by (simp add: isSpace_def)
qed

lemma specWords_Nil_iff: "(specWords s = []) = list_all isSpace s"
  by (induction s rule: specWords.induct) (auto split: list.splits)

lemma specWords_words:
  "w \<in> set (specWords s) \<Longrightarrow> w \<noteq> [] \<and> list_all (\<lambda>c. \<not> isSpace c) w"
  by (induction s arbitrary: w rule: specWords.induct) (auto split: list.splits if_splits)

lemma collapseSpaces_words:
  "collapseSpaces s =
     (if s \<noteq> [] \<and> isSpace (hd s) then '' '' else [])
       @ specJoin '' '' (specWords s)
       @ (if specWords s \<noteq> [] \<and> isSpace (last s) then '' '' else [])"
proof (induction s rule: collapseSpaces.induct)
  case 1
  show ?case by (simp add: specJoin_def)
next
  case (2 c)
  show ?case by (simp add: specJoin_def)
next
  case (3 c d cs)
  show ?case
  proof (cases "isSpace c")
    case True
    then show ?thesis using 3 by (cases "isSpace d") simp_all
  next
    case c: False
    show ?thesis
    proof (cases "isSpace d")
      case d: True
      show ?thesis
      proof (cases "specWords (d # cs)")
        case Nil
        then have "list_all isSpace (d # cs)" using specWords_Nil_iff [of "d # cs"] by simp
        then have "isSpace (last (d # cs))"
          by (metis last_in_set list.distinct(1) list_all_iff)
        then show ?thesis using 3 c d Nil by (simp add: specJoin_def)
      next
        case (Cons w ws)
        then show ?thesis using 3 c d by (simp add: specJoin_def)
      qed
    next
      case d: False
      then have "specWords (d # cs) \<noteq> []" using specWords_Nil_iff [of "d # cs"] by simp
      then obtain w ws where "specWords (d # cs) = w # ws" by (cases "specWords (d # cs)") auto
      then show ?thesis using 3 c d by (simp add: specJoin_def)
    qed
  qed
qed

lemma last_concat_sep:
  "rest \<noteq> [] \<Longrightarrow> last rest \<noteq> [] \<Longrightarrow> last (concat (map (\<lambda>v. sep @ v) rest)) = last (last rest)"
proof (induction rest)
  case Nil
  then show ?case by simp
next
  case (Cons v rest)
  show ?case
  proof (cases "rest = []")
    case True
    then show ?thesis using Cons.prems by simp
  next
    case False
    then have ne: "last rest \<noteq> []" using Cons.prems by simp
    have "rest = butlast rest @ [last rest]" using False by simp
    then have "concat (map (\<lambda>v. sep @ v) rest)
        = concat (map (\<lambda>v. sep @ v) (butlast rest)) @ sep @ last rest"
      by (metis (no_types, lifting) append_Nil2 concat.simps(1) concat.simps(2) concat_append list.simps(8) list.simps(9) map_append)
    then have "concat (map (\<lambda>v. sep @ v) rest) \<noteq> []" using ne by simp
    then show ?thesis using Cons.IH [OF False ne] False by simp
  qed
qed

lemma specJoin_ends:
  assumes "ws \<noteq> []" and "\<And>w. w \<in> set ws \<Longrightarrow> w \<noteq> [] \<and> list_all (\<lambda>c. \<not> isSpace c) w"
  shows "specJoin sep ws \<noteq> [] \<and> \<not> isSpace (hd (specJoin sep ws))
         \<and> \<not> isSpace (last (specJoin sep ws))"
proof -
  obtain w rest where ws: "ws = w # rest" using assms(1) by (cases ws) auto
  have w: "w \<noteq> []" "list_all (\<lambda>c. \<not> isSpace c) w" using assms(2) [of w] ws by simp_all
  have J: "specJoin sep ws = w @ concat (map (\<lambda>v. sep @ v) rest)" by (simp add: specJoin_def ws)
  have hd: "\<not> isSpace (hd (specJoin sep ws))"
    using w J by (cases w) simp_all
  have lastOf: "\<not> isSpace (last v)" if "v \<in> set ws" for v
  proof -
    have "v \<noteq> []" "list_all (\<lambda>c. \<not> isSpace c) v" using assms(2) [OF that] by simp_all
    then show ?thesis by (metis last_in_set list_all_iff)
  qed
  have "\<not> isSpace (last (specJoin sep ws))"
  proof (cases "rest = []")
    case True
    then show ?thesis using J lastOf [of w] ws by simp
  next
    case False
    have lr: "last rest \<in> set ws" using False ws by simp
    then have ne: "last rest \<noteq> []" using assms(2) by blast
    have "concat (map (\<lambda>v. sep @ v) rest) \<noteq> []" using False ne
      by (metis (no_types, lifting) Nil_is_append_conv append_butlast_last_id concat.simps(2) concat_append list.simps(9) map_append)
    then have "last (specJoin sep ws) = last (last rest)"
      using J last_concat_sep [OF False ne, of sep] by simp
    then show ?thesis using lastOf [OF lr] by simp
  qed
  then show ?thesis using hd J w by simp
qed

lemma trimEnd_tidy:
  "J \<noteq> [] \<Longrightarrow> \<not> isSpace (last J) \<Longrightarrow> list_all isSpace b \<Longrightarrow> trimEnd (J @ b) = J"
proof -
  assume J: "J \<noteq> []" "\<not> isSpace (last J)" and b: "list_all isSpace b"
  have "dropWhile isSpace (rev b @ rev J) = dropWhile isSpace (rev J)"
    using b by (simp add: dropWhile_append list_all_iff)
  moreover have "dropWhile isSpace (rev J) = rev J"
    using J by (cases "rev J") (auto simp: hd_rev [symmetric] dest: arg_cong [where f = hd])
  ultimately show ?thesis by (simp add: trimEnd_def)
qed

lemma trim_tidy:
  assumes "J = [] \<or> (\<not> isSpace (hd J) \<and> \<not> isSpace (last J))"
    and "list_all isSpace a" and "list_all isSpace b"
  shows "trim (a @ J @ b) = J"
proof (cases "J = []")
  case True
  have "\<forall>x \<in> set (a @ b). isSpace x" using assms(2,3) by (auto simp: list_all_iff)
  then have e: "dropWhile isSpace (a @ b) = []" by (simp only: dropWhile_eq_Nil_conv)
  show ?thesis unfolding True trim_def append_Nil e by (simp add: trimEnd_def)
next
  case False
  then have J: "\<not> isSpace (hd J)" "\<not> isSpace (last J)" using assms(1) by simp_all
  have "dropWhile isSpace (a @ J @ b) = dropWhile isSpace (J @ b)"
    using assms(2) by (simp add: dropWhile_append list_all_iff)
  also have "\<dots> = J @ b" using False J(1) by (cases J) simp_all
  finally show ?thesis using trimEnd_tidy [OF False J(2) assms(3)] by (simp add: trim_def)
qed

lemma collapsed_text: "trim (collapseSpaces s) = specText s"
proof -
  have ends: "specJoin '' '' (specWords s) = []
      \<or> (\<not> isSpace (hd (specJoin '' '' (specWords s))) \<and> \<not> isSpace (last (specJoin '' '' (specWords s))))"
  proof (cases "specWords s = []")
    case True
    then show ?thesis by (simp add: specJoin_def)
  next
    case False
    from specJoin_ends [OF False specWords_words, where sep = "'' ''"] show ?thesis by simp
  qed
  have a: "list_all isSpace (if s \<noteq> [] \<and> isSpace (hd s) then '' '' else [])"
    by (simp add: isSpace_space)
  have b: "list_all isSpace (if specWords s \<noteq> [] \<and> isSpace (last s) then '' '' else [])"
    by (simp add: isSpace_space)
  show ?thesis
    unfolding specText_def
    by (subst collapseSpaces_words) (rule trim_tidy [OF ends a b])
qed

lemma joinWith_specJoin: "joinWith sep ws = specJoin sep ws"
  by (induction sep ws rule: joinWith.induct) (simp_all add: specJoin_def)

lemma heading_spec: "''## '' @ titleForColor c = specHeading c"
  by (cases c) (simp_all add: titleForColor_def specHeading_def colorName_def upperAscii_def)

lemma trimEnd_specStripEnd: "trimEnd s = specStripEnd s"
proof -
  have "rev (takeWhile isSpace (rev s) @ dropWhile isSpace (rev s)) = s" by simp
  then have s: "s = rev (dropWhile isSpace (rev s)) @ rev (takeWhile isSpace (rev s))"
    unfolding rev_append by (rule sym)
  have "length (rev (dropWhile isSpace (rev s))) = length s - length (takeWhile isSpace (rev s))"
    using arg_cong [OF s, of length] by simp
  then have "take (length s - length (takeWhile isSpace (rev s))) s = rev (dropWhile isSpace (rev s))"
    using s by (metis append_eq_conv_conj)
  then show ?thesis by (simp add: trimEnd_def specStripEnd_def)
qed

lemma trimEnd_space: "isSpace c \<Longrightarrow> trimEnd (s @ [c]) = trimEnd s"
  by (simp add: trimEnd_def)

lemma joinWith_terminated:
  "ls \<noteq> [] \<Longrightarrow> joinWith [c] ls @ [c] = concat (map (\<lambda>l. l @ [c]) ls)"
  by (induction "[c]" ls rule: joinWith.induct) simp_all

lemma body_spec:
  "trimEnd (joinWith newline ls) = specStripEnd (concat (map (\<lambda>l. l @ [CHR 0x0A]) ls))"
proof (cases "ls = []")
  case True
  then show ?thesis by (simp add: trimEnd_def specStripEnd_def)
next
  case False
  have "trimEnd (joinWith newline ls) = trimEnd (joinWith [CHR 0x0A] ls @ [CHR 0x0A])"
    by (simp add: trimEnd_space isSpace_LF newline_LF)
  then show ?thesis
    by (simp only: joinWith_terminated [OF False] trimEnd_specStripEnd)
qed

lemma digitValue_digitChar: "d < 10 \<Longrightarrow> digitValue (digitChar d) = d \<and> isDigit (digitChar d)"
proof -
  assume "d < 10"
  then have "d \<in> {0, 1, 2, 3, 4, 5, 6, 7, 8, 9}" by auto
  then show ?thesis
    by (auto simp: digitValue_def digitChar_def isDigit_def)
qed

lemma digitChar_zero: "d < 10 \<Longrightarrow> (digitChar d = CHR ''0'') = (d = 0)"
proof -
  assume "d < 10"
  then have "d \<in> {0, 1, 2, 3, 4, 5, 6, 7, 8, 9}" by auto
  then show ?thesis
    by (auto simp: digitChar_def)
qed

lemma natToString_decimal:
  "decimalValue (natToString 10 n) = n \<and> natToString 10 n \<noteq> []
   \<and> list_all isDigit (natToString 10 n) \<and> ((hd (natToString 10 n) = CHR ''0'') = (n = 0))
   \<and> (n = 0 \<longrightarrow> natToString 10 n = ''0'')"
proof (induction n rule: less_induct)
  case (less n)
  show ?case
  proof (cases "n < 10")
    case True
    then have "natToString 10 n = [digitChar n]" by (simp add: natToString.simps)
    then show ?thesis using digitValue_digitChar [OF True] digitChar_zero [OF True]
      by (auto simp: decimalValue_def digitChar_def)
  next
    case False
    then have eq: "natToString 10 n = natToString 10 (n div 10) @ [digitChar (n mod 10)]"
      by (simp add: natToString.simps [of 10 n])
    have lt: "n div 10 < n" using False by simp
    have m: "n mod 10 < 10" by simp
    have ne: "n div 10 \<noteq> 0" using False by simp
    from less.IH [OF lt] digitValue_digitChar [OF m] ne False show ?thesis
      unfolding eq by (simp add: decimalValue_def)
  qed
qed

lemma intToString_numeral: "specNumeral n (intToString n)"
proof (cases "n < 0")
  case True
  then have "nat (- n) \<noteq> 0" by simp
  then show ?thesis using True natToString_decimal [of "nat (- n)"]
    by (simp add: specNumeral_def intToString_def isDecimal_def)
next
  case False
  then show ?thesis using natToString_decimal [of "nat n"]
    by (auto simp: specNumeral_def intToString_def isDecimal_def)
qed

lemma foldl_bullets: "foldl (\<lambda>ls h. ls @ [f h]) init list = init @ map f list"
  by (induction list arbitrary: init) simp_all

lemma setOrder_fold:
  "distinct seen \<Longrightarrow>
     distinct (foldl (\<lambda>seen v. if v \<in> set seen then seen else seen @ [v]) seen xs)
     \<and> set (foldl (\<lambda>seen v. if v \<in> set seen then seen else seen @ [v]) seen xs) = set seen \<union> set xs"
proof (induction xs arbitrary: seen)
  case Nil
  then show ?case by simp
next
  case (Cons a xs)
  show ?case
  proof (cases "a \<in> set seen")
    case True
    then show ?thesis using Cons.IH [OF Cons.prems] by auto
  next
    case False
    then have "distinct (seen @ [a])" using Cons.prems by simp
    from Cons.IH [OF this] False show ?thesis by auto
  qed
qed

lemma setOrder_props: "distinct (setOrder xs)" "set (setOrder xs) = set xs"
  using setOrder_fold [of "[]" xs] by (simp_all add: setOrder_def)

lemma sort_setOrder: "sort (setOrder xs) = sorted_list_of_set (set xs)"
proof (rule sorted_distinct_set_unique)
  show "sorted (sort (setOrder xs))" by simp
  show "distinct (sort (setOrder xs))" by (simp add: setOrder_props)
  show "sorted (sorted_list_of_set (set xs))" by simp
  show "distinct (sorted_list_of_set (set xs))" by simp
  show "set (sort (setOrder xs)) = set (sorted_list_of_set (set xs))"
    by (simp add: setOrder_props)
qed

lemma pageNumbers_spec: "pageNumbers h = specPages h"
  by (simp add: pageNumbers_def specPages_def sort_setOrder)

lemma pageNumbers_empty: "(length (pageNumbers h) \<noteq> 0) = (pages h \<noteq> [])"
proof -
  have "set (pageNumbers h) = (\<lambda>p. page p + 1) ` set (pages h)"
    by (simp add: pageNumbers_spec specPages_def)
  then have "(set (pageNumbers h) = {}) = (set (pages h) = {})"
    by simp
  then show ?thesis by simp
qed

lemma bulletLine_spec: "bulletLine h = specBullet h"
proof (cases "pages h = []")
  case True
  then have "length (pageNumbers h) = 0" using pageNumbers_empty [of h] by simp
  then show ?thesis
    using True by (simp add: bulletLine_def specBullet_def Let_def collapsed_text)
next
  case False
  then have "length (pageNumbers h) \<noteq> 0" using pageNumbers_empty [of h] by simp
  then show ?thesis
    using False
    by (simp add: bulletLine_def specBullet_def Let_def collapsed_text joinWith_specJoin)
       (simp add: pageNumbers_spec)
qed

lemma lookupList_groupStep:
  "lookupList (groupStep groups h) c =
     (if color h = c then lookupList groups c @ [h] else lookupList groups c)"
  by (simp add: lookupList_def groupStep_def Let_def update_conv')

lemma lookupList_groups:
  "lookupList (foldl groupStep groups hs) c = lookupList groups c @ filter (\<lambda>h. color h = c) hs"
  by (induction hs arbitrary: groups) (simp_all add: lookupList_groupStep)

lemma emitGroup_lookupList:
  "emitGroup groups lines c =
     lines @ (if lookupList groups c = [] then []
              else specHeading c # map specBullet (lookupList groups c) @ [[]])"
  by (simp add: emitGroup_def lookupList_def Let_def foldl_bullets bulletLine_spec
      heading_spec [symmetric] split: option.splits)

lemma emitGroup_spec:
  "emitGroup (foldl groupStep [] hs) lines c = lines @ specGroup hs c"
proof -
  have "lookupList [] c = ([] :: Highlight list)"
    by (simp add: lookupList_def)
  then have "lookupList (foldl groupStep [] hs) c = filter (\<lambda>h. color h = c) hs"
    by (simp add: lookupList_groups)
  then show ?thesis
    by (simp add: emitGroup_lookupList specGroup_def)
qed

lemma foldl_emitGroup:
  "foldl (emitGroup (foldl groupStep [] hs)) lines cs = lines @ concat (map (specGroup hs) cs)"
  by (induction cs arbitrary: lines) (simp_all add: emitGroup_spec)

lemma annotationLines_spec: "annotationLines hs = specLines hs"
  unfolding annotationLines_def Let_def specLines_def
  by (simp only: foldl_emitGroup append_Nil)

lemma export_example:
  "buildAnnotationMarkdown ''f''
     [exampleHighlight ''1'' Yellow (''  a   b '' @ [CHR 0x0A] @ ''c '') [2, 0, 2],
      exampleHighlight ''2'' FlashcardColor ''x'' [],
      exampleHighlight ''3'' Yellow '' '' []]
   = ''## Flashcard'' @ [CHR 0x0A] @ ''- x'' @ [CHR 0x0A] @ [CHR 0x0A] @ ''## Yellow'' @ [CHR 0x0A]
       @ ''- a b c (pages 1, 3)'' @ [CHR 0x0A] @ ''-'' @ [CHR 0x0A]"
  by code_simp

lemma export_marker: "buildAnnotationMarkdown file [] = ''_No annotations found._''"
  by (simp add: buildAnnotationMarkdown_def)

lemma export_nonempty: "buildAnnotationMarkdown file (h # hs) = specExport (h # hs)"
  by (simp add: buildAnnotationMarkdown_def annotationLines_spec body_spec [unfolded newline_LF]
      specExport_def newline_LF)

lemma export_file_unused: "buildAnnotationMarkdown file hs = buildAnnotationMarkdown file' hs"
  by (simp add: buildAnnotationMarkdown_def)

text \<open>
  C9. For an empty list the export is the single marker line. For a non-empty list it
  is the text the specification describes, stated without the helper functions of the
  code: for each colour in the order flashcard, yellow, green, blue that has a
  highlight, the heading of the colour, one bullet per highlight of that colour in
  input order and an empty line; a bullet is the words of the highlight text (its
  maximal runs of characters other than white space) with one space between
  neighbours, followed, when the highlight has page entries, by its distinct 1-based
  pages in ascending order; every line ends with a line feed, and the white space at the
  end of the whole text is replaced by one line feed. A page number is printed as its
  decimal numeral (digits without a leading zero, a minus sign for a negative number,
  reading back as the number), white space is the seven characters listed, and the export
  depends on the highlight list alone (the file argument is not read, and the function
  has no other input).
\<close>

theorem export_structure:
  "buildAnnotationMarkdown file [] = ''_No annotations found._''
   \<and> buildAnnotationMarkdown file (h # hs) = specExport (h # hs)
   \<and> buildAnnotationMarkdown file hs = buildAnnotationMarkdown file' hs
   \<and> specNumeral n (intToString n)
   \<and> isSpace c = (c \<in> {CHR 0x09, CHR 0x0A, CHR 0x0B, CHR 0x0C, CHR 0x0D, CHR 0x20, CHR 0xA0})"
  by (intro conjI export_marker export_nonempty export_file_unused intToString_numeral
      isSpace_chars)

theorem export_structure_witness:
  "specExport
     [exampleHighlight ''1'' Yellow (''  a   b '' @ [CHR 0x0A] @ ''c '') [2, 0, 2],
      exampleHighlight ''2'' FlashcardColor ''x'' [],
      exampleHighlight ''3'' Yellow '' '' []]
   = ''## Flashcard'' @ [CHR 0x0A] @ ''- x'' @ [CHR 0x0A] @ [CHR 0x0A] @ ''## Yellow'' @ [CHR 0x0A]
       @ ''- a b c (pages 1, 3)'' @ [CHR 0x0A] @ ''-'' @ [CHR 0x0A]
   \<and> specNumeral (- 12) ''-12'' \<and> isSpace (CHR 0xA0) \<and> \<not> isSpace (CHR ''a'')"
proof -
  note t = export_structure [of "''f''"
      "exampleHighlight ''1'' Yellow (''  a   b '' @ [CHR 0x0A] @ ''c '') [2, 0, 2]"
      "[exampleHighlight ''2'' FlashcardColor ''x'' [], exampleHighlight ''3'' Yellow '' '' []]"
      "''f''" "- 12"]
  have a: "intToString (- 12) = ''-12''" by code_simp
  have b: "isSpace (CHR 0xA0)" using t [of "CHR 0xA0"] by simp
  have c: "\<not> isSpace (CHR ''a'')" using t [of "CHR ''a''"] by simp
  have d: "specNumeral (- 12) ''-12''"
    using conjunct1 [OF conjunct2 [OF conjunct2 [OF conjunct2 [OF t [of "CHR ''a''"]]]]]
    unfolding a .
  have e: "specExport
     [exampleHighlight ''1'' Yellow (''  a   b '' @ [CHR 0x0A] @ ''c '') [2, 0, 2],
      exampleHighlight ''2'' FlashcardColor ''x'' [],
      exampleHighlight ''3'' Yellow '' '' []]
   = ''## Flashcard'' @ [CHR 0x0A] @ ''- x'' @ [CHR 0x0A] @ [CHR 0x0A] @ ''## Yellow'' @ [CHR 0x0A]
       @ ''- a b c (pages 1, 3)'' @ [CHR 0x0A] @ ''-'' @ [CHR 0x0A]"
    unfolding conjunct1 [OF conjunct2 [OF t [of "CHR ''a''"]], symmetric] by (rule export_example)
  from e d b c show ?thesis by (intro conjI)
qed

subsection \<open>Flashcard generation lemmas\<close>

lemma newCards_highlightIds:
  "map (highlightIds \<circ>
          (\<lambda>(d, idx). \<lparr>cardId = g idx, cardSourcePath = fp, highlightIds = ids,
                        question = q d, answer = a d, cardCreatedAt = t\<rparr>)) zs
   = replicate (length zs) ids"
  by (induction zs) auto

lemma loadHighlights_storedVault:
  "loadHighlights generationHost ''a.pdf'' storedVault = storedHighlights"
  by (simp add: loadHighlights_def Let_def ensureStorageFolder_def readJson_def readJson_try_def
      adapter_exists_def adapter_read_def storedVault_def emptyVault_def generationHost_def
      exampleHost_def)

lemma storedHighlights_pending:
  "map hid (filter pendingHighlight storedHighlights) = [''h1'', ''h3'']"
  by (simp add: storedHighlights_def exampleHighlight_def pendingHighlight_def)

lemma parseFlashcards_twoCardReply:
  "parseFlashcards generationHost twoCardReply =
     [\<lparr>draftQuestion = ''2+2?'', draftAnswer = ''4''\<rparr>,
      \<lparr>draftQuestion = ''3+3?'', draftAnswer = ''6''\<rparr>]"
  by (simp add: parseFlashcards_def parseFlashcards_try_def generationHost_def exampleHost_def
      twoCardItems_def twoCardReply_def keepItem_def draftOf_def propString_def)

lemma withIndex_two: "withIndex [a, b] = [(a, 0), (b, 1)]"
  by (simp add: withIndex_def upt_rec)

lemma generate_example:
  "fst (snd (generateFlashcardsFromActivePdf generationHost exampleCall exampleIds 0
       (Some ''a.pdf'') storedVault))
   = [\<lparr>cardId = exampleIds 0, cardSourcePath = ''a.pdf'', highlightIds = [''h1'', ''h3''],
       question = ''2+2?'', answer = ''4'', cardCreatedAt = toISOString generationHost 0\<rparr>,
      \<lparr>cardId = exampleIds 1, cardSourcePath = ''a.pdf'', highlightIds = [''h1'', ''h3''],
       question = ''3+3?'', answer = ''6'', cardCreatedAt = toISOString generationHost 0\<rparr>]"
proof -
  have k: "apiKey storedVault \<noteq> []" by (simp add: storedVault_def emptyVault_def)
  have f: "filter pendingHighlight storedHighlights \<noteq> []"
    using storedHighlights_pending by auto
  show ?thesis
    using k f
    by (simp add: generateFlashcardsFromActivePdf_def Let_def loadHighlights_storedVault
        storedHighlights_pending parseFlashcards_twoCardReply withIndex_two exampleCall_def)
qed

text \<open>
  C10. Every flashcard created by one run of the generation command carries the same
  list of highlight ids: the ids, in file order, of all highlights of the source
  document that were flashcard highlights not yet marked generated when the run
  loaded them.
\<close>

theorem generated_cards_share_highlightIds:
  "map highlightIds
     (fst (snd (generateFlashcardsFromActivePdf H callOpenAI newIds now (Some filePath) st)))
   = replicate
       (length (fst (snd (generateFlashcardsFromActivePdf H callOpenAI newIds now
          (Some filePath) st))))
       (map hid (filter pendingHighlight (loadHighlights H filePath st)))"
  by (simp add: generateFlashcardsFromActivePdf_def Let_def newCards_highlightIds
      split: option.splits)

theorem generated_cards_share_highlightIds_witness:
  "map hid (filter pendingHighlight (loadHighlights generationHost ''a.pdf'' storedVault))
     = [''h1'', ''h3'']
   \<and> length (fst (snd (generateFlashcardsFromActivePdf generationHost exampleCall exampleIds 0
        (Some ''a.pdf'') storedVault))) = 2
   \<and> map highlightIds
       (fst (snd (generateFlashcardsFromActivePdf generationHost exampleCall exampleIds 0
          (Some ''a.pdf'') storedVault)))
     = [[''h1'', ''h3''], [''h1'', ''h3'']]"
proof -
  have p: "map hid (filter pendingHighlight (loadHighlights generationHost ''a.pdf'' storedVault))
     = [''h1'', ''h3'']"
    by (simp add: loadHighlights_storedVault storedHighlights_pending)
  have n: "length (fst (snd (generateFlashcardsFromActivePdf generationHost exampleCall
        exampleIds 0 (Some ''a.pdf'') storedVault))) = 2"
    by (simp add: generate_example)
  show ?thesis
    using p n
      generated_cards_share_highlightIds [of generationHost exampleCall exampleIds 0 "''a.pdf''"
        storedVault]
    by (simp add: numeral_2_eq_2)
qed

end
